theory Spec2Isabelle
  imports Complex_Main "HOL-Library.Sublist"
begin

section \<open>rSqoop: staging of tables from MSSQL to Redshift (rsqoop_runner/module.py)\<close>

text \<open>
  The development embeds the methods of class \<open>rSqoop\<close> of \<open>rsqoop_runner/module.py\<close>.
  Python exceptions are values of the type \<open>error\<close>; a method that may raise returns
  \<open>error + 'a\<close> with \<open>Inl\<close> for the exception. Python strings are \<open>string\<close>.
  \<open>PyException m\<close> is \<open>Exception(m)\<close>; \<open>CountCheckFailed diff pct_diff\<close> is the
  \<open>Exception\<close> of \<open>check_tgt_count\<close>, whose message is formatted from the two numbers;
  \<open>DriverError\<close> is an exception raised inside a database or storage client.
\<close>

subsection \<open>Exceptions\<close>

datatype error =
    TypeError
  | IndexError
  | ValueError
  | OverflowError
  | ZeroDivisionError
  | KeyError string
  | PyException string
  | CountCheckFailed int real
  | DriverError string

subsection \<open>Python string helpers\<close>

text \<open>\<open>str(n)\<close> for a Python int: the decimal numeral, with a leading minus sign.\<close>

definition digit_char :: "nat \<Rightarrow> char" where
  "digit_char n = ''0123456789'' ! n"

fun str_nat :: "nat \<Rightarrow> string" where
  "str_nat n = (if n < 10 then [digit_char n] else str_nat (n div 10) @ [digit_char (n mod 10)])"

declare str_nat.simps [simp del]

definition str_int :: "int \<Rightarrow> string" where
  "str_int i = (if i < 0 then CHR ''-'' # str_nat (nat (- i)) else str_nat (nat i))"

text \<open>\<open>'%s' % v\<close> for a value that is an int or \<open>None\<close>.\<close>

definition str_opt_int :: "int option \<Rightarrow> string" where
  "str_opt_int v = (case v of None \<Rightarrow> ''None'' | Some i \<Rightarrow> str_int i)"

text \<open>\<open>s.lower()\<close>, on the ASCII letters.\<close>

definition lower_char :: "char \<Rightarrow> char" where
  "lower_char c =
     (case map_of (zip ''ABCDEFGHIJKLMNOPQRSTUVWXYZ'' ''abcdefghijklmnopqrstuvwxyz'') c of
        Some d \<Rightarrow> d
      | None \<Rightarrow> c)"

definition lower :: "string \<Rightarrow> string" where
  "lower s = map lower_char s"

text \<open>\<open>sep.join(xs)\<close>.\<close>

fun join :: "string \<Rightarrow> string list \<Rightarrow> string" where
  "join sep [] = []"
| "join sep [x] = x"
| "join sep (x # y # ys) = x @ sep @ join sep (y # ys)"

subsection \<open>Column descriptors\<close>

text \<open>
  A row of the catalog query of \<open>get_source_table_schema\<close>: the tuple
  \<open>(column_name, data_type, character_maximum_length, numeric_precision, numeric_scale)\<close>,
  read in the source as \<open>field[0]\<close> .. \<open>field[4]\<close>. The three numbers are nullable.
\<close>

record field =
  column_name :: string
  data_type :: string
  character_maximum_length :: "int option"
  numeric_precision :: "int option"
  numeric_scale :: "int option"

subsection \<open>Type translation (the loop body of \<open>clone_staging_table\<close>)\<close>

definition rs_date_types :: "string list" where
  "rs_date_types = [''timestamp with time zone'', ''time without time zone'',
                    ''datetime'', ''smalldatetime'', ''date'', ''datetime2'']"

definition rs_char_types :: "string list" where
  "rs_char_types = [''timestamp'', ''char'', ''varchar'', ''character'', ''nchar'', ''bpchar'',
                    ''character varying'', ''nvarchar'', ''text'']"

definition rs_num_types :: "string list" where
  "rs_num_types = [''decimal'', ''numeric'']"

definition rs_smallint_types :: "string list" where
  "rs_smallint_types = [''bit'', ''tinyint'', ''smallint'', ''int2'']"

definition rs_int_types :: "string list" where
  "rs_int_types = [''int'', ''integer'', ''int4'']"

definition rs_bigint_types :: "string list" where
  "rs_bigint_types = [''bigint'', ''int8'']"

definition rs_other_types :: "string list" where
  "rs_other_types = [''real'', ''double precision'',
                     ''boolean'', ''float4'', ''float8'',
                     ''float'', ''date'', ''bool'',
                     ''timestamp without time zone'']"

definition rs_reserved_names :: "string list" where
  "rs_reserved_names = [''partition'']"

text \<open>
  Lines 207-210: the name of the target column.
\<close>

definition target_column_name :: "field \<Rightarrow> string" where
  "target_column_name f =
     (if lower (column_name f) \<notin> set rs_reserved_names then column_name f
      else ''v_'' @ column_name f)"

text \<open>
  Lines 219-222: \<open>field_type\<close> of the character branch.
\<close>

definition char_field_type :: "field \<Rightarrow> string" where
  "char_field_type f =
     (if data_type f = ''text'' \<or> data_type f = ''timestamp'' then ''varchar''
      else data_type f)"

text \<open>
  Lines 224-231: \<open>size\<close> of the character branch. \<open>int(field[2])\<close> is evaluated whenever the
  type is not \<open>timestamp\<close>; on \<open>None\<close> it raises \<open>TypeError\<close>.
\<close>

definition char_size :: "field \<Rightarrow> error + int" where
  "char_size f =
     (if data_type f = ''timestamp'' then Inr 8
      else (case character_maximum_length f of
              None \<Rightarrow> Inl TypeError
            | Some n \<Rightarrow>
                if n > 65535 then Inr 65535
                else if n < 0 then Inr 2000
                else Inr n))"

text \<open>
  Lines 213-252: the \<open>if\<close>/\<open>elif\<close> chain computing \<open>data_type\<close>, in the order of the source.
\<close>

definition target_data_type :: "field \<Rightarrow> error + string" where
  "target_data_type f =
     (if data_type f \<in> set rs_date_types then Inr ''timestamp''
      else if data_type f = ''uuid'' then Inr ''varchar(50)''
      else if data_type f \<in> set rs_char_types then
        (case char_size f of
           Inl e \<Rightarrow> Inl e
         | Inr sz \<Rightarrow>
             Inr (if data_type f = ''timestamp'' \<or> character_maximum_length f \<noteq> None
                  then char_field_type f @ '' ('' @ str_int sz @ '')''
                  else ''varchar(2000)''))
      else if data_type f \<in> set rs_smallint_types then Inr ''smallint''
      else if data_type f \<in> set rs_int_types then Inr ''integer''
      else if data_type f \<in> set rs_bigint_types then Inr ''bigint''
      else if data_type f \<in> set rs_num_types then
        Inr (if numeric_precision f \<noteq> None
             then data_type f @ '' ('' @ str_opt_int (numeric_precision f) @ '',''
                  @ str_opt_int (numeric_scale f) @ '')''
             else data_type f)
      else if data_type f \<in> set rs_other_types then Inr (data_type f)
      else if data_type f = ''uniqueidentifier'' then Inr ''varchar(36)''
      else Inr ''varchar(2000)'')"

text \<open>
  Line 254: the row appended to \<open>create_sql\<close> for one field, and the loop over the schema.
\<close>

definition create_row :: "field \<Rightarrow> error + string" where
  "create_row f =
     (case target_data_type f of
        Inl e \<Rightarrow> Inl e
      | Inr ty \<Rightarrow> Inr (''\"'' @ target_column_name f @ ''\" '' @ ty @ '',\<newline>''))"

fun create_rows :: "string \<Rightarrow> field list \<Rightarrow> error + string" where
  "create_rows create_sql [] = Inr create_sql"
| "create_rows create_sql (f # fs) =
     (case create_row f of
        Inl e \<Rightarrow> Inl e
      | Inr r \<Rightarrow> create_rows (create_sql @ r) fs)"

subsection \<open>Python floats\<close>

text \<open>
  A Python float is an IEEE 754 binary64 number; a finite one is modelled by the real number
  it denotes. \<open>round_double x\<close> is the binary64 number nearest to \<open>x\<close>, ties going to the
  even significand: with \<open>2 ^ e \<le> \<bar>x\<bar> < 2 ^ (e + 1)\<close> (and \<open>e\<close> no smaller than the least
  normal exponent \<open>- 1022\<close>) the candidates are the multiples of \<open>2 ^ (e - 52)\<close>. The sign of a
  zero is not modelled.
\<close>

fun bitlen :: "nat \<Rightarrow> nat" where
  "bitlen n = (if n = 0 then 0 else Suc (bitlen (n div 2)))"

declare bitlen.simps [simp del]

definition pow2 :: "int \<Rightarrow> real" where
  "pow2 k = (if 0 \<le> k then 2 ^ nat k else 1 / 2 ^ nat (- k))"

definition binary_exponent :: "real \<Rightarrow> int" where
  "binary_exponent a =
     (if 1 \<le> a then int (bitlen (nat \<lfloor>a\<rfloor>)) - 1
      else - int (bitlen (nat (\<lceil>1 / a\<rceil> - 1))))"

definition round_half_even :: "real \<Rightarrow> int" where
  "round_half_even x =
     (let n = \<lfloor>x\<rfloor>; r = x - of_int n
      in if r < 1 / 2 then n
         else if 1 / 2 < r then n + 1
         else if even n then n else n + 1)"

definition round_double :: "real \<Rightarrow> real" where
  "round_double x =
     (if x = 0 then 0
      else let a = \<bar>x\<bar>;
               e = max (binary_exponent a) (- 1022);
               u = pow2 (e - 52)
           in sgn x * of_int (round_half_even (a / u)) * u)"

text \<open>
  \<open>float(n)\<close> for a Python int: the nearest binary64 number, \<open>OverflowError\<close> when it would
  be \<open>2 ^ 1024\<close> or beyond.
\<close>

definition py_float :: "int \<Rightarrow> error + real" where
  "py_float n =
     (let r = round_double (of_int n)
      in if 2 ^ 1024 \<le> \<bar>r\<bar> then Inl OverflowError else Inr r)"

text \<open>
  \<open>a / n\<close> for a float \<open>a\<close> and an int \<open>n\<close>: \<open>n\<close> is converted first, a zero divisor raises,
  and the quotient is rounded once. The divisor is the float of a nonzero integer, so the
  quotient is no larger than \<open>a\<close> and no infinity arises.
\<close>

definition float_truediv_int :: "real \<Rightarrow> int \<Rightarrow> error + real" where
  "float_truediv_int a n =
     (case py_float n of
        Inl e \<Rightarrow> Inl e
      | Inr b \<Rightarrow> if b = 0 then Inl ZeroDivisionError else Inr (round_double (a / b)))"

subsection \<open>Reconciliation (\<open>check_tgt_count\<close>, lines 523-533)\<close>

text \<open>
  The default \<open>pct_threshold=0.01\<close>: the literal denotes the binary64 number nearest to
  \<open>1/100\<close>.
\<close>

definition default_pct_threshold :: real where
  "default_pct_threshold = round_double (1 / 100)"

text \<open>
  Line 524: \<open>pct_diff = float(diff)/(src_cnt if src_cnt != 0 else 1)\<close>, with
  \<open>diff = src_cnt - tgt_cnt\<close>.
\<close>

definition pct_diff :: "int \<Rightarrow> int \<Rightarrow> error + real" where
  "pct_diff src_cnt tgt_cnt =
     (case py_float (src_cnt - tgt_cnt) of
        Inl e \<Rightarrow> Inl e
      | Inr fdiff \<Rightarrow> float_truediv_int fdiff (if src_cnt \<noteq> 0 then src_cnt else 1))"

text \<open>
  The part of \<open>check_tgt_count\<close> after the target count has been fetched (lines 523-533):
  the difference, the relative difference, the exception when \<open>pct_diff > pct_threshold\<close>,
  and the returned pair otherwise.
\<close>

definition count_check :: "int \<Rightarrow> int \<Rightarrow> real \<Rightarrow> error + (int \<times> real)" where
  "count_check src_cnt tgt_cnt pct_threshold =
     (let diff = src_cnt - tgt_cnt
      in case pct_diff src_cnt tgt_cnt of
           Inl e \<Rightarrow> Inl e
         | Inr p \<Rightarrow>
             if p > pct_threshold then Inl (CountCheckFailed diff p)
             else Inr (diff, p))"

text \<open>
  The relative difference in the words of the specification, as an exact quotient:
  \<open>(source_count - target_count) / source_count\<close>, the denominator being 1 for a zero
  source count.
\<close>

definition relative_diff :: "int \<Rightarrow> int \<Rightarrow> real" where
  "relative_diff source_count target_count =
     of_int (source_count - target_count)
       / of_int (if source_count = 0 then 1 else source_count)"

subsection \<open>Row values and their normalization (\<open>source_to_s3\<close>, lines 339-347)\<close>

text \<open>
  A scalar of a fetched row: \<open>None\<close>, a \<open>bool\<close>, an \<open>int\<close>, a \<open>str\<close>, or any other object
  the driver returns (a float, a \<open>Decimal\<close>, a \<open>datetime\<close>, ...), which is given by the
  string that \<open>str\<close> returns for it.
\<close>

datatype pyval = PyNone | PyBool bool | PyInt int | PyStr string | PyObj string

fun py_str :: "pyval \<Rightarrow> string" where
  "py_str PyNone = ''None''"
| "py_str (PyBool b) = (if b then ''True'' else ''False'')"
| "py_str (PyInt i) = str_int i"
| "py_str (PyStr s) = s"
| "py_str (PyObj s) = s"

text \<open>\<open>s.replace(old, new)\<close> for one-character \<open>old\<close> and \<open>new\<close>.\<close>

definition str_replace :: "string \<Rightarrow> char \<Rightarrow> char \<Rightarrow> string" where
  "str_replace s old new = map (\<lambda>c. if c = old then new else c) s"

text \<open>
  Lines 342-345. \<open>isinstance(s, bool)\<close> holds for the booleans only; \<open>int(True)\<close> is 1 and
  \<open>int(False)\<close> is 0. The four replaced characters are \<open>\n\<close>, \<open>\t\<close>, \<open>\r\<close> and \<open>\v\<close>, in the
  order of the source.
\<close>

definition normalize :: "pyval \<Rightarrow> pyval" where
  "normalize s =
     (case s of
        PyBool b \<Rightarrow> PyInt (if b then 1 else 0)
      | _ \<Rightarrow>
          PyStr (str_replace (str_replace (str_replace (str_replace (py_str s)
                   (CHR 0x0A) (CHR '' '')) (CHR 0x09) (CHR '' '')) (CHR 0x0D) (CHR '' ''))
                   (CHR 0x0B) (CHR '' '')))"

text \<open>Lines 340-347: the list written for one row, \<open>row_data + meta_values\<close>.\<close>

definition written_row :: "pyval list \<Rightarrow> pyval list \<Rightarrow> pyval list" where
  "written_row meta_values row = map normalize row @ meta_values"

subsection \<open>The \<open>rSqoop\<close> object\<close>

text \<open>
  A \<open>datetime\<close> and the two formats the source prints it in. The fields are zero-padded,
  the year to four digits.
\<close>

record datetime =
  year :: nat
  month :: nat
  day :: nat
  hour :: nat
  minute :: nat
  second :: nat

definition zero_pad :: "nat \<Rightarrow> nat \<Rightarrow> string" where
  "zero_pad w n = replicate (w - length (str_nat n)) (CHR ''0'') @ str_nat n"

text \<open>\<open>d.strftime('%Y-%m-%d %H:%M')\<close> and \<open>d.strftime('%Y-%m-%d %H:%M:%S')\<close>.\<close>

definition strftime_minute :: "datetime \<Rightarrow> string" where
  "strftime_minute d =
     zero_pad 4 (year d) @ ''-'' @ zero_pad 2 (month d) @ ''-'' @ zero_pad 2 (day d)
       @ '' '' @ zero_pad 2 (hour d) @ '':'' @ zero_pad 2 (minute d)"

definition strftime_second :: "datetime \<Rightarrow> string" where
  "strftime_second d = strftime_minute d @ '':'' @ zero_pad 2 (second d)"

text \<open>
  The attributes of \<open>self\<close> that the modelled methods read: \<open>from_date\<close>, \<open>etl_date\<close>,
  \<open>meta_fields['etl_run_id']\<close>, \<open>s3_env\<close>, \<open>conf['general']['temp_bucket']\<close> and the two
  keys. The connections are part of the world below.
\<close>

record rsqoop =
  from_date :: "datetime option"
  etl_date :: datetime
  etl_run_id :: int
  s3_env :: string
  temp_bucket :: string
  aws_access_key :: string
  aws_secret_key :: string

subsection \<open>Field selection (\<open>get_field_values\<close>, \<open>get_fields\<close>, \<open>get_select_fields\<close>)\<close>

text \<open>
  An entry of \<open>select_fields\<close>: a field name, or a pair of a field name and the name that
  overrides it.
\<close>

datatype selection = SelStr string | SelTuple string string

text \<open>
  Line 121, the condition of the comprehension for one entry \<open>i\<close>:
  \<open>i == key_to_find or str(i[0]).lower() == str(key_to_find).lower()\<close>. For a string entry
  \<open>i[0]\<close> is its first character, and indexing the empty string raises \<open>IndexError\<close>.
\<close>

fun field_matches :: "selection \<Rightarrow> string \<Rightarrow> error + bool" where
  "field_matches (SelStr i) key_to_find =
     (if i = key_to_find then Inr True
      else (case i of
              [] \<Rightarrow> Inl IndexError
            | c # _ \<Rightarrow> Inr (lower [c] = lower key_to_find)))"
| "field_matches (SelTuple i0 i1) key_to_find = Inr (lower i0 = lower key_to_find)"

fun get_field_values :: "selection list \<Rightarrow> string \<Rightarrow> error + selection list" where
  "get_field_values [] key_to_find = Inr []"
| "get_field_values (i # iterables) key_to_find =
     (case field_matches i key_to_find of
        Inl e \<Rightarrow> Inl e
      | Inr b \<Rightarrow>
          (case get_field_values iterables key_to_find of
             Inl e \<Rightarrow> Inl e
           | Inr r \<Rightarrow> Inr (if b then i # r else r)))"

text \<open>Lines 102-110: the loop of \<open>get_fields\<close> over the schema, for a non-empty selection.\<close>

fun selected_fields :: "selection list \<Rightarrow> field list \<Rightarrow> error + field list" where
  "selected_fields select_fields [] = Inr []"
| "selected_fields select_fields (f # schema) =
     (case get_field_values select_fields (lower (column_name f)) of
        Inl e \<Rightarrow> Inl e
      | Inr selected_field \<Rightarrow>
          (case selected_fields select_fields schema of
             Inl e \<Rightarrow> Inl e
           | Inr flds \<Rightarrow>
               (case selected_field of
                  [] \<Rightarrow> Inr flds
                | SelTuple i0 i1 # _ \<Rightarrow> Inr (f\<lparr>column_name := i1\<rparr> # flds)
                | SelStr i # _ \<Rightarrow> Inr (f\<lparr>column_name := i\<rparr> # flds))))"

text \<open>
  \<open>get_fields\<close>: \<open>select_fields\<close> is \<open>None\<close> or a list; an empty list is false as well.
\<close>

definition get_fields :: "selection list option \<Rightarrow> field list \<Rightarrow> error + field list" where
  "get_fields select_fields schema =
     (case select_fields of
        None \<Rightarrow> Inr schema
      | Some [] \<Rightarrow> Inr schema
      | Some (i # sel) \<Rightarrow> selected_fields (i # sel) schema)"

text \<open>Lines 157-163: \<open>get_select_fields\<close>, the selected source names joined by commas.\<close>

fun select_field_names :: "field list \<Rightarrow> selection list \<Rightarrow> error + string list" where
  "select_field_names [] select_fields = Inr []"
| "select_field_names (f # schema) select_fields =
     (case get_field_values select_fields (lower (column_name f)) of
        Inl e \<Rightarrow> Inl e
      | Inr selected_field \<Rightarrow>
          (case select_field_names schema select_fields of
             Inl e \<Rightarrow> Inl e
           | Inr field_names \<Rightarrow>
               Inr (if selected_field = [] then field_names
                    else column_name f # field_names)))"

definition get_select_fields :: "field list \<Rightarrow> selection list \<Rightarrow> error + string" where
  "get_select_fields schema select_fields =
     (case select_field_names schema select_fields of
        Inl e \<Rightarrow> Inl e
      | Inr field_names \<Rightarrow> Inr (join '','' field_names))"

subsection \<open>The catalog query (\<open>get_source_table_schema\<close>, lines 128-147)\<close>

text \<open>\<open>s.split(sep)\<close> for a one-character separator.\<close>

fun py_split :: "string \<Rightarrow> char \<Rightarrow> string list" where
  "py_split [] sep = [[]]"
| "py_split (c # cs) sep =
     (if c = sep then [] # py_split cs sep
      else (case py_split cs sep of
              p # ps \<Rightarrow> (c # p) # ps
            | [] \<Rightarrow> [[c]]))"

text \<open>
  Lines 128-136. Unpacking \<open>src_table.split('.')\<close> into two names raises \<open>ValueError\<close> unless
  there are exactly two parts; a bracketed table name loses its first and last character
  (\<open>table_name[1: len(table_name) - 1]\<close>).
\<close>

definition schema_and_table :: "string \<Rightarrow> error + (string \<times> string)" where
  "schema_and_table src_table =
     (case (if CHR ''.'' \<in> set src_table
            then (case py_split src_table (CHR ''.'') of
                    [schema_name, table_name] \<Rightarrow> Inr (schema_name, table_name)
                  | _ \<Rightarrow> Inl ValueError)
            else Inr (''public'', src_table)) of
        Inl e \<Rightarrow> Inl e
      | Inr (schema_name, table_name) \<Rightarrow>
          Inr (schema_name,
               if CHR ''['' \<in> set table_name
               then drop 1 (take (length table_name - 1) table_name)
               else table_name))"

definition schema_sql :: "string \<Rightarrow> string \<Rightarrow> string" where
  "schema_sql schema_name table_name =
     ''\<newline>'' @
     ''            select\<newline>'' @
     ''              column_name,\<newline>'' @
     ''              data_type,\<newline>'' @
     ''              character_maximum_length,\<newline>'' @
     ''              numeric_precision,\<newline>'' @
     ''              numeric_scale\<newline>'' @
     ''            from information_schema.columns\<newline>'' @
     ''            where table_name=lower('' @ [CHR 0x27] @
     table_name @
     [CHR 0x27] @ '') and table_schema=lower('' @ [CHR 0x27] @
     schema_name @
     [CHR 0x27] @ '')\<newline>'' @
     ''            order by ordinal_position ''"

subsection \<open>The extraction query (\<open>source_to_s3\<close>, lines 310-322)\<close>

text \<open>
  Lines 310-314. \<open>date_fields\<close> is \<open>None\<close> or a list of column names and \<open>self.from_date\<close> is
  \<open>None\<close> or a \<open>datetime\<close>; \<open>None\<close> and the empty list are false, a \<open>datetime\<close> is true.
\<close>

definition filter_str :: "datetime option \<Rightarrow> string list option \<Rightarrow> string" where
  "filter_str from_dt date_fields =
     (case date_fields of
        None \<Rightarrow> ''''
      | Some [] \<Rightarrow> ''''
      | Some (d # ds) \<Rightarrow>
          (case from_dt of
             None \<Rightarrow> ''''
           | Some fd \<Rightarrow>
               ''where '' @
               join '' or ''
                 (map (\<lambda>date. date @ '' > '' @ [CHR 0x27] @ strftime_minute fd @ [CHR 0x27])
                    (d # ds))))"

definition ce_sql :: "string \<Rightarrow> string \<Rightarrow> string \<Rightarrow> string" where
  "ce_sql select_str src_table filter_s =
     ''select '' @ select_str @ '' from '' @ src_table @ '' with (nolock) '' @ filter_s"

subsection \<open>The count queries and the grants (lines 505, 519, 575-578)\<close>

definition count_sql :: "string \<Rightarrow> string" where
  "count_sql tbl = ''select count(1) from '' @ tbl"

definition grant_sql :: "string \<Rightarrow> string" where
  "grant_sql entity =
     ''\<newline>'' @
     ''            grant all on '' @ entity @ '' to etl_user;\<newline>'' @
     ''            grant all on '' @ entity @ '' to group ro_users;\<newline>'' @
     ''            grant all on '' @ entity @ '' to group power_users;\<newline>''"

subsection \<open>The table definition (\<open>clone_staging_table\<close>, lines 202-262)\<close>

definition drop_sql :: "string \<Rightarrow> string" where
  "drop_sql tgt_table = ''drop table if exists '' @ tgt_table @ '';\<newline>''"

text \<open>
  \<open>create_sql\<close>: the header, one row for each field, and the four metadata columns. It
  raises what the translation of a field raises.
\<close>

definition create_sql :: "string \<Rightarrow> field list \<Rightarrow> error + string" where
  "create_sql tgt_table schema =
     (case create_rows (''create table '' @ tgt_table @ '' (\<newline>'') schema of
        Inl e \<Rightarrow> Inl e
      | Inr rows \<Rightarrow>
          Inr (rows @ ''etl_source_system_cd varchar(50),''
                    @ ''\<newline>etl_row_create_dts timestamp,''
                    @ ''\<newline>etl_row_update_dts timestamp,''
                    @ ''\<newline>etl_run_id bigint );\<newline>''))"

subsection \<open>String formatting with a dictionary (the operator \<open>%\<close>)\<close>

text \<open>
  \<open>template % subs\<close> for a dictionary \<open>subs\<close> whose values are already strings, and a template
  whose conversions all have the form \<open>%(key)s\<close>, as those of \<open>s3_to_redshift\<close> have. A key
  that is not in the dictionary raises \<open>KeyError\<close> when its closing parenthesis is read; \<open>%%\<close>
  is a percent sign; every other use of \<open>%\<close> is outside the model and is \<open>ValueError\<close>. The
  scanner keeps the output reversed. The substituted values are not scanned again.
\<close>

datatype fmt_state = FLit | FPercent | FKey string | FConv string

fun py_format_scan ::
  "(string \<times> string) list \<Rightarrow> fmt_state \<Rightarrow> string \<Rightarrow> string \<Rightarrow> error + string" where
  "py_format_scan subs FLit out [] = Inr (rev out)"
| "py_format_scan subs FLit out (c # cs) =
     (if c = CHR ''%'' then py_format_scan subs FPercent out cs
      else py_format_scan subs FLit (c # out) cs)"
| "py_format_scan subs FPercent out [] = Inl ValueError"
| "py_format_scan subs FPercent out (c # cs) =
     (if c = CHR ''('' then py_format_scan subs (FKey []) out cs
      else if c = CHR ''%'' then py_format_scan subs FLit (c # out) cs
      else Inl ValueError)"
| "py_format_scan subs (FKey k) out [] = Inl ValueError"
| "py_format_scan subs (FKey k) out (c # cs) =
     (if c = CHR '')''
      then (case map_of subs (rev k) of
              None \<Rightarrow> Inl (KeyError (rev k))
            | Some v \<Rightarrow> py_format_scan subs (FConv v) out cs)
      else py_format_scan subs (FKey (c # k)) out cs)"
| "py_format_scan subs (FConv v) out [] = Inl ValueError"
| "py_format_scan subs (FConv v) out (c # cs) =
     (if c = CHR ''s'' then py_format_scan subs FLit (rev v @ out) cs
      else Inl ValueError)"

definition py_format :: "string \<Rightarrow> (string \<times> string) list \<Rightarrow> error + string" where
  "py_format template subs = py_format_scan subs FLit [] template"

subsection \<open>The load statement (\<open>s3_to_redshift\<close>, lines 396-479)\<close>

text \<open>Lines 401-409: \<open>opt_str\<close>.\<close>

definition opt_str :: "bool \<Rightarrow> bool \<Rightarrow> bool \<Rightarrow> string" where
  "opt_str gzip manifest remove_quotes =
     (let options = (if gzip then [''GZIP''] else [])
                    @ (if manifest then [''MANIFEST''] else [])
                    @ (if remove_quotes then [''REMOVEQUOTES''] else [])
      in if length options > 0 then join '' '' options else '''')"

text \<open>Lines 413-467: the three templates, by the branch taken.\<close>

definition pre_sql1 :: "bool \<Rightarrow> string" where
  "pre_sql1 incremental =
     (if \<not> incremental then ''delete from %(tgt_table)s;\<newline>''
      else
     ''\<newline>'' @
     ''                drop table if exists tmp;\<newline>'' @
     ''                create temporary table tmp (like %(tgt_table)s);\<newline>'')"

definition cp_sql :: "bool \<Rightarrow> bool \<Rightarrow> string" where
  "cp_sql incremental csv_fmt =
     (if \<not> incremental then
        (if csv_fmt then
     ''\<newline>'' @
     ''                COPY %(tgt_table)s from '%(s3_path)s'\<newline>'' @
     ''                CREDENTIALS 'aws_access_key_id=%(aws_id)s;aws_secret_access_key=%(aws_key)s'\<newline>'' @
     ''                dateformat 'YYYY-MM-DD'\<newline>'' @
     ''                NULL AS 'None'\<newline>'' @
     ''                truncatecolumns\<newline>'' @
     ''                maxerror %(maxerror)s\<newline>'' @
     ''                %(options)s;\<newline>''
         else
     ''\<newline>'' @
     ''                COPY %(tgt_table)s from '%(s3_path)s'\<newline>'' @
     ''                CREDENTIALS 'aws_access_key_id=%(aws_id)s;aws_secret_access_key=%(aws_key)s'\<newline>'' @
     ''                delimiter '%(delimiter)s'\<newline>'' @
     ''                dateformat 'YYYY-MM-DD'\<newline>'' @
     ''                NULL AS 'None'\<newline>'' @
     ''                truncatecolumns\<newline>'' @
     ''                maxerror %(maxerror)s\<newline>'' @
     ''                %(options)s;\<newline>'')
      else
        (if csv_fmt then
     ''\<newline>'' @
     ''                COPY tmp from '%(s3_path)s'\<newline>'' @
     ''                CREDENTIALS 'aws_access_key_id=%(aws_id)s;aws_secret_access_key=%(aws_key)s'\<newline>'' @
     ''                dateformat 'YYYY-MM-DD'\<newline>'' @
     ''                NULL AS 'None'\<newline>'' @
     ''                truncatecolumns\<newline>'' @
     ''                maxerror %(maxerror)s %(options)s;\<newline>''
         else
     ''\<newline>'' @
     ''                COPY tmp from '%(s3_path)s'\<newline>'' @
     ''                CREDENTIALS 'aws_access_key_id=%(aws_id)s;aws_secret_access_key=%(aws_key)s'\<newline>'' @
     ''                delimiter '%(delimiter)s'\<newline>'' @
     ''                dateformat 'YYYY-MM-DD'\<newline>'' @
     ''                NULL AS 'None'\<newline>'' @
     ''                truncatecolumns\<newline>'' @
     ''                maxerror %(maxerror)s %(options)s;\<newline>''))"

definition upd_sql :: "bool \<Rightarrow> string" where
  "upd_sql incremental =
     (if \<not> incremental then ''''
      else
     ''\<newline>'' @
     ''                delete\<newline>'' @
     ''                from %(tgt_table)s\<newline>'' @
     ''                where exists\<newline>'' @
     ''                  ( select 1\<newline>'' @
     ''                    from tmp\<newline>'' @
     ''                    where %(upd_where)s);\<newline>'' @
     ''                insert into %(tgt_table)s\<newline>'' @
     ''                select * from tmp;\<newline>'')"

text \<open>
  Line 458, taken in the incremental branch only, where \<open>key_fields\<close> is a non-empty list.
\<close>

definition upd_where :: "bool \<Rightarrow> string \<Rightarrow> string list option \<Rightarrow> string" where
  "upd_where incremental tgt_table key_fields =
     (if \<not> incremental then ''''
      else join '' and ''
             (map (\<lambda>x. ''tmp.'' @ x @ '' = '' @ tgt_table @ ''.'' @ x)
                (case key_fields of None \<Rightarrow> [] | Some ks \<Rightarrow> ks)))"

text \<open>Lines 469-477: the dictionary \<open>subs\<close>, its values as \<open>%s\<close> prints them.\<close>

definition subs ::
  "rsqoop \<Rightarrow> string \<Rightarrow> string \<Rightarrow> bool \<Rightarrow> bool \<Rightarrow> int \<Rightarrow> string \<Rightarrow> string \<Rightarrow> string
     \<Rightarrow> (string \<times> string) list" where
  "subs self tgt_table s3_path incremental csv_fmt maxerror options upd_wh delimiter =
     [(''tgt_table'', tgt_table), (''s3_path'', s3_path), (''aws_id'', aws_access_key self),
      (''aws_key'', aws_secret_key self), (''maxerror'', str_int maxerror),
      (''options'', options), (''upd_where'', upd_wh)]
     @ (if csv_fmt then [] else [(''delimiter'', delimiter)])"

text \<open>
  Lines 396-479: the check of the parameters and the text of \<open>sql\<close>. \<open>not key_fields\<close> holds
  for \<open>None\<close> and for the empty list.
\<close>

definition s3_to_redshift_sql ::
  "rsqoop \<Rightarrow> string \<Rightarrow> string \<Rightarrow> bool \<Rightarrow> bool \<Rightarrow> bool \<Rightarrow> bool \<Rightarrow> int \<Rightarrow> string list option
     \<Rightarrow> string \<Rightarrow> bool \<Rightarrow> error + string" where
  "s3_to_redshift_sql self tgt_table s3_path incremental csv_fmt gzip manifest maxerror
       key_fields delimiter remove_quotes =
     (if incremental \<and> (key_fields = None \<or> key_fields = Some [])
      then Inl (PyException ''incremental loads require key fields'')
      else py_format (pre_sql1 incremental @ cp_sql incremental csv_fmt @ upd_sql incremental)
             (subs self tgt_table s3_path incremental csv_fmt maxerror
                (opt_str gzip manifest remove_quotes)
                (upd_where incremental tgt_table key_fields) delimiter))"

subsection \<open>The clients and the calls made to them\<close>

text \<open>
  The database clients (\<open>self.sql\<close>, \<open>self.pg_conn\<close>), the storage client (\<open>self.s3_conn\<close>) and
  the local file system are outside \<open>module.py\<close>. A run is modelled by the list of the calls
  it has made to them, in order. The replies are parameters: a \<open>world\<close> says, from the calls
  made so far, whether a call raises and which data it returns. Writing the temporary file
  (open, one \<open>writerow\<close> for each row, flush, close) is one call; the rows of \<open>fetch_sql\<close> are
  taken as fetched before the file is written. Logging and \<open>sleep\<close> are not modelled.
\<close>

datatype call =
    SqlFetchSqlAll string
  | SqlFetchSql string
  | PgTableExists string
  | PgConn
  | PgBatchOpen
  | PgExecSql string
  | PgBatchCommit
  | PgFetchSql string
  | PgFetchSqlAll string
  | S3PutFile string string string
  | WriteTempFile string bool string "pyval list list"
  | PathExists string
  | RemoveFile string

record world =
  raises :: "call list \<Rightarrow> call \<Rightarrow> error option"
  schema_rows :: "call list \<Rightarrow> string \<Rightarrow> field list"
  src_rows :: "call list \<Rightarrow> string \<Rightarrow> pyval list list"
  src_count :: "call list \<Rightarrow> string \<Rightarrow> int"
  tgt_count :: "call list \<Rightarrow> string \<Rightarrow> int"
  tgt_exists :: "call list \<Rightarrow> string \<Rightarrow> bool"
  path_exists :: "call list \<Rightarrow> string \<Rightarrow> bool"

text \<open>
  A method takes the calls made so far and returns its result, or the exception it raises,
  with the calls made when it ends.
\<close>

type_synonym 'a io = "call list \<Rightarrow> (error + 'a) \<times> call list"

definition io_return :: "'a \<Rightarrow> 'a io" where
  "io_return x = (\<lambda>tr. (Inr x, tr))"

definition io_raise :: "error \<Rightarrow> 'a io" where
  "io_raise e = (\<lambda>tr. (Inl e, tr))"

definition io_lift :: "error + 'a \<Rightarrow> 'a io" where
  "io_lift r = (\<lambda>tr. (r, tr))"

definition io_bind :: "'a io \<Rightarrow> ('a \<Rightarrow> 'b io) \<Rightarrow> 'b io" where
  "io_bind m f =
     (\<lambda>tr. case m tr of
             (Inl e, tr') \<Rightarrow> (Inl e, tr')
           | (Inr x, tr') \<Rightarrow> f x tr')"

text \<open>\<open>try: m except Exception as e: handler\<close>.\<close>

definition io_try :: "'a io \<Rightarrow> (error \<Rightarrow> 'a io) \<Rightarrow> 'a io" where
  "io_try m handler =
     (\<lambda>tr. case m tr of
             (Inl e, tr') \<Rightarrow> handler e tr'
           | (Inr x, tr') \<Rightarrow> (Inr x, tr'))"

text \<open>A call to a client: it is recorded, and it raises or returns the world's answer.\<close>

definition ask :: "world \<Rightarrow> call \<Rightarrow> (call list \<Rightarrow> 'a) \<Rightarrow> 'a io" where
  "ask w c answer =
     (\<lambda>tr. case raises w tr c of
             Some e \<Rightarrow> (Inl e, tr @ [c])
           | None \<Rightarrow> (Inr (answer tr), tr @ [c]))"

definition perform :: "world \<Rightarrow> call \<Rightarrow> unit io" where
  "perform w c = ask w c (\<lambda>tr. ())"

subsection \<open>The methods\<close>

definition get_source_table_schema :: "world \<Rightarrow> string \<Rightarrow> field list io" where
  "get_source_table_schema w src_table =
     io_bind (io_lift (schema_and_table src_table)) (\<lambda>(schema_name, table_name).
       ask w (SqlFetchSqlAll (schema_sql schema_name table_name))
         (\<lambda>tr. schema_rows w tr (schema_sql schema_name table_name)))"

text \<open>
  \<open>clone_staging_table\<close> (lines 187-278). The result is the pair \<open>(src_table, tgt_table)\<close>,
  or \<open>(None, None)\<close> when the schema is empty.
\<close>

definition clone_staging_table ::
  "world \<Rightarrow> string \<Rightarrow> string \<Rightarrow> selection list option \<Rightarrow> bool
     \<Rightarrow> (string option \<times> string option) io" where
  "clone_staging_table w src_table tgt_table select_fields incremental =
     io_bind (get_source_table_schema w src_table) (\<lambda>src_schema.
     io_bind (io_lift (get_fields select_fields src_schema)) (\<lambda>schema.
     io_bind (ask w (PgTableExists tgt_table) (\<lambda>tr. tgt_exists w tr tgt_table)) (\<lambda>tgt_ex.
       if length schema = 0 then io_return (None, None)
       else if incremental \<and> tgt_ex then io_return (Some src_table, Some tgt_table)
       else
         io_bind (io_lift (create_sql tgt_table schema)) (\<lambda>create.
         io_bind
           (io_try
              (io_bind (perform w (PgExecSql (drop_sql tgt_table @ create))) (\<lambda>_.
                 perform w PgBatchCommit))
              (\<lambda>e. perform w PgBatchCommit)) (\<lambda>_.
         io_return (Some src_table, Some tgt_table))))))"

text \<open>
  Lines 331-336: \<open>meta_values\<close>, in the order of the keys of \<open>meta_fields\<close>. The source
  also stores the three values in \<open>self.meta_fields\<close>, which no other method reads.
\<close>

definition meta_values :: "rsqoop \<Rightarrow> string option \<Rightarrow> pyval list" where
  "meta_values self source_system_cd =
     [PyStr (case source_system_cd of None \<Rightarrow> '''' | Some cd \<Rightarrow> cd),
      PyStr (strftime_second (etl_date self)),
      PyStr (strftime_second (etl_date self)),
      PyInt (etl_run_id self)]"

text \<open>Lines 317-320: \<open>select_str\<close>.\<close>

definition select_str :: "world \<Rightarrow> string \<Rightarrow> selection list option \<Rightarrow> string io" where
  "select_str w src_table select_fields =
     (case select_fields of
        None \<Rightarrow> io_return ''*''
      | Some [] \<Rightarrow> io_return ''*''
      | Some (i # sel) \<Rightarrow>
          io_bind (get_source_table_schema w src_table) (\<lambda>src_schema.
            io_lift (get_select_fields src_schema (i # sel))))"

text \<open>\<open>source_to_s3\<close> (lines 302-368). The result is \<open>s3_full_path\<close>.\<close>

definition source_to_s3 ::
  "world \<Rightarrow> rsqoop \<Rightarrow> string \<Rightarrow> string \<Rightarrow> string option \<Rightarrow> string option
     \<Rightarrow> selection list option \<Rightarrow> string list option \<Rightarrow> string \<Rightarrow> bool \<Rightarrow> string option
     \<Rightarrow> string io" where
  "source_to_s3 w self src_table tgt_table s3_bucket s3_key select_fields date_fields
       delimiter gzip source_system_cd =
     (let tgt_key = str_replace tgt_table (CHR ''.'') (CHR ''-'');
          bucket = (case s3_bucket of None \<Rightarrow> temp_bucket self | Some b \<Rightarrow> b);
          key = (case s3_key of
                   None \<Rightarrow> ''rsqoop/'' @ s3_env self @ ''/'' @ tgt_key
                 | Some k \<Rightarrow> k);
          s3_path = ''s3://'' @ bucket @ ''/'' @ key;
          temp_name = ''temp/'' @ tgt_key @ ''.txt''
      in
       io_bind (select_str w src_table select_fields) (\<lambda>sel_str.
       io_bind (ask w (SqlFetchSql (ce_sql sel_str src_table
                          (filter_str (from_date self) date_fields)))
                  (\<lambda>tr. src_rows w tr (ce_sql sel_str src_table
                          (filter_str (from_date self) date_fields)))) (\<lambda>result.
       io_bind (perform w (WriteTempFile temp_name gzip delimiter
                  (map (written_row (meta_values self source_system_cd)) result))) (\<lambda>_.
       io_bind (perform w PgConn) (\<lambda>_.
       io_bind (perform w PgBatchOpen) (\<lambda>_.
       io_bind (perform w (PgFetchSql ''select 1'')) (\<lambda>_.
       io_bind (perform w (SqlFetchSql ''select 1'')) (\<lambda>_.
       io_bind (perform w (S3PutFile bucket (key @ ''/output.tsv'') temp_name)) (\<lambda>_.
       io_bind (ask w (PathExists temp_name) (\<lambda>tr. path_exists w tr temp_name)) (\<lambda>ex.
       io_bind (if ex then perform w (RemoveFile temp_name) else io_return ()) (\<lambda>_.
       io_return (s3_path @ ''/'' @ ''output.tsv''))))))))))))"

definition grant_std_access :: "world \<Rightarrow> string \<Rightarrow> unit io" where
  "grant_std_access w entity =
     io_bind (perform w (PgExecSql (grant_sql entity))) (\<lambda>_. perform w PgBatchCommit)"

text \<open>
  \<open>s3_to_redshift\<close> (lines 396-495): the check and the text of the statement, then the
  connection and the statement inside \<open>try\<close> (the handler logs and raises again), the grants
  and the commit.
\<close>

definition s3_to_redshift ::
  "world \<Rightarrow> rsqoop \<Rightarrow> string \<Rightarrow> string \<Rightarrow> bool \<Rightarrow> bool \<Rightarrow> bool \<Rightarrow> bool \<Rightarrow> int
     \<Rightarrow> string list option \<Rightarrow> string \<Rightarrow> bool \<Rightarrow> unit io" where
  "s3_to_redshift w self tgt_table s3_path incremental csv_fmt gzip manifest maxerror
       key_fields delimiter remove_quotes =
     io_bind (io_lift (s3_to_redshift_sql self tgt_table s3_path incremental csv_fmt gzip
                         manifest maxerror key_fields delimiter remove_quotes)) (\<lambda>sql.
     io_bind
       (io_try
          (io_bind (perform w PgConn) (\<lambda>_.
           io_bind (perform w PgBatchOpen) (\<lambda>_.
           perform w (PgExecSql sql))))
          (\<lambda>e. io_raise e)) (\<lambda>_.
     io_bind (grant_std_access w tgt_table) (\<lambda>_.
     perform w PgBatchCommit)))"

text \<open>
  \<open>get_src_count\<close> (lines 504-507) and \<open>check_tgt_count\<close> (lines 518-533). The count query
  returns one row of one integer, which \<open>[0][0]\<close> reads.
\<close>

definition get_src_count :: "world \<Rightarrow> string \<Rightarrow> int io" where
  "get_src_count w src_table =
     ask w (SqlFetchSqlAll (count_sql src_table)) (\<lambda>tr. src_count w tr (count_sql src_table))"

definition check_tgt_count :: "world \<Rightarrow> int \<Rightarrow> string \<Rightarrow> real \<Rightarrow> (int \<times> real) io" where
  "check_tgt_count w src_cnt tgt_table pct_threshold =
     io_bind (ask w (PgFetchSqlAll (count_sql tgt_table))
                (\<lambda>tr. tgt_count w tr (count_sql tgt_table))) (\<lambda>tgt_cnt.
       io_lift (count_check src_cnt tgt_cnt pct_threshold))"

text \<open>
  \<open>stage_to_redshift\<close> (lines 608-639). After the clone the source only logs when
  \<open>src_name\<close> is false (line 615-616) and goes on with steps 2 to 5, which use \<open>src_table\<close>
  and \<open>tgt_table\<close>, not the pair the clone returned. \<open>s3_to_redshift\<close> is called with its
  defaults \<open>csv_fmt=False\<close>, \<open>manifest=False\<close> and \<open>maxerror=0\<close>, and \<open>check_tgt_count\<close> with
  its default threshold.
\<close>

definition stage_to_redshift ::
  "world \<Rightarrow> rsqoop \<Rightarrow> string \<Rightarrow> string \<Rightarrow> bool \<Rightarrow> bool \<Rightarrow> string list option \<Rightarrow> string
     \<Rightarrow> bool \<Rightarrow> string list option \<Rightarrow> selection list option \<Rightarrow> string option
     \<Rightarrow> unit io" where
  "stage_to_redshift w self src_table tgt_table incremental gzip date_fields delimiter
       remove_quotes key_fields select_fields source_system_cd =
     io_bind (clone_staging_table w src_table tgt_table select_fields incremental)
       (\<lambda>(src_name, tgt_name).
     io_bind (get_src_count w src_table) (\<lambda>src_cnt.
     io_bind (source_to_s3 w self src_table tgt_table None None select_fields date_fields
                delimiter gzip source_system_cd) (\<lambda>s3_path.
     io_bind (s3_to_redshift w self tgt_table s3_path incremental False gzip False 0
                key_fields delimiter remove_quotes) (\<lambda>_.
     io_bind (check_tgt_count w src_cnt tgt_table default_pct_threshold) (\<lambda>_.
     io_return ())))))"

subsection \<open>The filter of the extraction query, in the words of the specification\<close>

text \<open>
  A condition on a row: a column compared "greater than" with a literal, or the logical OR
  of two conditions. \<open>render\<close> is its SQL text; \<open>satisfies gt\<close> is its truth for a row, where
  \<open>gt c v\<close> says whether the row's value in column \<open>c\<close> is greater than the literal \<open>v\<close>.
  \<open>any_newer d ds v\<close> is the OR, over the columns \<open>d # ds\<close>, of the comparison with \<open>v\<close>.
\<close>

datatype condition = Greater string string | Or condition condition

fun render :: "condition \<Rightarrow> string" where
  "render (Greater c v) = c @ '' > '' @ [CHR 0x27] @ v @ [CHR 0x27]"
| "render (Or a b) = render a @ '' or '' @ render b"

fun satisfies :: "(string \<Rightarrow> string \<Rightarrow> bool) \<Rightarrow> condition \<Rightarrow> bool" where
  "satisfies gt (Greater c v) = gt c v"
| "satisfies gt (Or a b) = (satisfies gt a \<or> satisfies gt b)"

fun any_newer :: "string \<Rightarrow> string list \<Rightarrow> string \<Rightarrow> condition" where
  "any_newer d [] v = Greater d v"
| "any_newer d (e # ds) v = Or (Greater d v) (any_newer e ds v)"

text \<open>
  The order of two moments, \<open>later a b\<close> when \<open>a\<close> is after \<open>b\<close>: "newer than the watermark"
  is \<open>later t from_date\<close>.
\<close>

definition later :: "datetime \<Rightarrow> datetime \<Rightarrow> bool" where
  "later a b =
     (year b < year a \<or> (year a = year b \<and>
     (month b < month a \<or> (month a = month b \<and>
     (day b < day a \<or> (day a = day b \<and>
     (hour b < hour a \<or> (hour a = hour b \<and>
     (minute b < minute a \<or> (minute a = minute b \<and> second b < second a))))))))))"

subsection \<open>The null sentinel, in the words of the specification\<close>

text \<open>
  The null sentinel is the text \<open>None\<close>, and \<open>null_as_none\<close> is the clause of a \<open>COPY\<close>
  statement that declares it. The load itself is done by the warehouse, outside
  \<open>module.py\<close>: \<open>copy_reads null_str staged\<close> is the value that a \<open>COPY\<close> with the clause
  \<open>NULL AS 'null_str'\<close> loads for a field staged as \<open>staged\<close>, as the warehouse documents the
  clause (a field that matches the null string is loaded as \<open>NULL\<close>, here \<open>None\<close>; any
  other field is loaded with its text).
\<close>

definition null_string :: string where
  "null_string = ''None''"

definition null_as_none :: string where
  "null_as_none = ''NULL AS '' @ [CHR 0x27] @ null_string @ [CHR 0x27]"

definition copy_reads :: "string \<Rightarrow> string \<Rightarrow> string option" where
  "copy_reads null_str staged = (if staged = null_str then None else Some staged)"

subsection \<open>Example runs\<close>

text \<open>
  An \<open>rSqoop\<close> object, a world in which no call raises (the catalog query returns the given
  schema, the tables are empty, the target table exists or not as given, the temporary file
  exists after it is written), and a world in which the source table does not exist: the
  catalog query returns no row and counting the rows of the table raises.
\<close>

definition example_self :: rsqoop where
  "example_self =
     \<lparr>from_date = None,
      etl_date = \<lparr>year = 2020, month = 11, day = 12, hour = 13, minute = 14, second = 15\<rparr>,
      etl_run_id = 1605186855, s3_env = ''dev'', temp_bucket = ''tmp-bucket'',
      aws_access_key = ''AK'', aws_secret_key = ''SK''\<rparr>"

definition quiet_world :: "field list \<Rightarrow> bool \<Rightarrow> world" where
  "quiet_world schema tgt_there =
     \<lparr>raises = (\<lambda>tr c. None),
      schema_rows = (\<lambda>tr q. schema),
      src_rows = (\<lambda>tr q. []),
      src_count = (\<lambda>tr q. 0),
      tgt_count = (\<lambda>tr q. 0),
      tgt_exists = (\<lambda>tr t. tgt_there),
      path_exists = (\<lambda>tr p. True)\<rparr>"

definition missing_table_world :: "string \<Rightarrow> world" where
  "missing_table_world src_table =
     (quiet_world [] False)
       \<lparr>raises := (\<lambda>tr c. if c = SqlFetchSqlAll (count_sql src_table)
                           then Some (DriverError ''Invalid object name'')
                           else None)\<rparr>"

section \<open>Properties\<close>

subsection \<open>The calls of a run\<close>

text \<open>
  A call is appended to the calls made so far, so the calls a method has made when it ends
  extend those made before it, and the first calls of a method can be read off its text.
\<close>

lemma ask_calls: "prefix (tr @ [c]) (snd (ask w c answer tr))"
  by (simp add: ask_def split: option.splits)

lemma ask_extends: "prefix tr (snd (ask w c answer tr))"
  by (simp add: ask_def split: option.splits)

lemma perform_extends: "prefix tr (snd (perform w c tr))"
  by (simp add: perform_def ask_extends)

lemma io_return_extends: "prefix tr (snd (io_return x tr))"
  by (simp add: io_return_def)

lemma io_bind_prefix:
  assumes "prefix p (snd (m tr))" and "\<And>x tr'. prefix tr' (snd (f x tr'))"
  shows "prefix p (snd (io_bind m f tr))"
proof (cases "m tr")
  case (Pair r tr')
  show ?thesis
  proof (cases r)
    case (Inl e)
    with Pair assms(1) show ?thesis by (simp add: io_bind_def)
  next
    case (Inr x)
    from Pair assms(1) have "prefix p tr'" by simp
    moreover have "prefix tr' (snd (f x tr'))" by (rule assms(2))
    ultimately have "prefix p (snd (f x tr'))" by (rule prefix_order.trans)
    with Pair Inr show ?thesis by (simp add: io_bind_def)
  qed
qed

lemma io_bind_extends:
  assumes "\<And>tr. prefix tr (snd (m tr))" and "\<And>x tr. prefix tr (snd (f x tr))"
  shows "prefix tr (snd (io_bind m f tr))"
  by (rule io_bind_prefix) (rule assms)+

lemma io_bind_result:
  "m tr = (Inr x, tr') \<Longrightarrow> io_bind m f tr = f x tr'"
  by (simp add: io_bind_def)

lemma ask_result:
  "raises w tr c = None \<Longrightarrow> ask w c answer tr = (Inr (answer tr), tr @ [c])"
  by (simp add: ask_def)

lemma source_to_s3_query:
  assumes "select_str w src_table select_fields tr = (Inr sel, tr')"
  shows "prefix (tr' @ [SqlFetchSql (ce_sql sel src_table
                          (filter_str (from_date self) date_fields))])
           (snd (source_to_s3 w self src_table tgt_table s3_bucket s3_key select_fields
                   date_fields delimiter gzip source_system_cd tr))"
  unfolding source_to_s3_def Let_def
    io_bind_result [of "select_str w src_table select_fields" tr sel tr', OF assms]
  by (intro io_bind_prefix ask_calls io_bind_extends perform_extends ask_extends
        io_return_extends)
     (simp_all add: perform_extends io_return_extends)

lemma source_to_s3_rows:
  assumes "select_str w src_table select_fields tr = (Inr sel, tr')"
    and "raises w tr' (SqlFetchSql (ce_sql sel src_table
                          (filter_str (from_date self) date_fields))) = None"
  shows "prefix (tr' @ [SqlFetchSql (ce_sql sel src_table
                          (filter_str (from_date self) date_fields)),
                        WriteTempFile
                          (''temp/'' @ str_replace tgt_table (CHR ''.'') (CHR ''-'') @ ''.txt'')
                          gzip delimiter
                          (map (written_row (meta_values self source_system_cd))
                             (src_rows w tr' (ce_sql sel src_table
                                (filter_str (from_date self) date_fields))))])
           (snd (source_to_s3 w self src_table tgt_table s3_bucket s3_key select_fields
                   date_fields delimiter gzip source_system_cd tr))"
  unfolding source_to_s3_def Let_def
    io_bind_result [of "select_str w src_table select_fields" tr sel tr', OF assms(1)]
    io_bind_result [of "ask w c a" tr' "a tr'" "tr' @ [c]" for c a, OF ask_result [OF assms(2)]]
  apply (rule io_bind_prefix)
   apply (simp add: perform_def)
   apply (rule ask_calls [of "tr' @ [c]" for c, simplified])
  apply (intro io_bind_extends perform_extends ask_extends io_return_extends)
  apply (simp_all add: perform_extends io_return_extends)
  done

lemma s3_to_redshift_statement:
  assumes "s3_to_redshift_sql self tgt_table s3_path incremental csv_fmt gzip manifest
             maxerror key_fields delimiter remove_quotes = Inr sql"
    and "raises w tr PgConn = None" and "raises w (tr @ [PgConn]) PgBatchOpen = None"
  shows "prefix (tr @ [PgConn, PgBatchOpen, PgExecSql sql])
           (snd (s3_to_redshift w self tgt_table s3_path incremental csv_fmt gzip manifest
                   maxerror key_fields delimiter remove_quotes tr))"
  using assms
  by (simp add: s3_to_redshift_def grant_std_access_def io_bind_def io_try_def io_lift_def
        io_raise_def ask_def perform_def split: option.splits)

lemma zero_pad_eval:
  "zero_pad 4 2020 = ''2020''" "zero_pad 2 11 = ''11''" "zero_pad 2 12 = ''12''"
  "zero_pad 2 13 = ''13''" "zero_pad 2 14 = ''14''" "zero_pad 2 15 = ''15''"
  by (simp_all add: zero_pad_def str_nat.simps digit_char_def)

subsection \<open>Type translation\<close>

lemma uniqueidentifier_not_earlier:
  "''uniqueidentifier'' \<notin> set rs_date_types"
  "''uniqueidentifier'' \<notin> set rs_char_types"
  "''uniqueidentifier'' \<notin> set rs_smallint_types"
  "''uniqueidentifier'' \<notin> set rs_int_types"
  "''uniqueidentifier'' \<notin> set rs_bigint_types"
  "''uniqueidentifier'' \<notin> set rs_num_types"
  "''uniqueidentifier'' \<notin> set rs_other_types"
  by (simp_all add: rs_date_types_def rs_char_types_def rs_smallint_types_def
        rs_int_types_def rs_bigint_types_def rs_num_types_def rs_other_types_def)

lemma uuid_not_date: "''uuid'' \<notin> set rs_date_types"
  by (simp add: rs_date_types_def)

text \<open>
  C9. A column of source type \<open>uniqueidentifier\<close> becomes \<open>varchar(36)\<close> and a column of
  source type \<open>uuid\<close> becomes \<open>varchar(50)\<close>, whatever its name, length, precision and scale;
  the two target types differ.
\<close>

theorem uuid_rules_distinct:
  "target_data_type (f\<lparr>data_type := ''uniqueidentifier''\<rparr>) = Inr ''varchar(36)''
   \<and> target_data_type (f\<lparr>data_type := ''uuid''\<rparr>) = Inr ''varchar(50)''
   \<and> target_data_type (f\<lparr>data_type := ''uniqueidentifier''\<rparr>)
       \<noteq> target_data_type (g\<lparr>data_type := ''uuid''\<rparr>)"
  by (simp add: target_data_type_def uniqueidentifier_not_earlier uuid_not_date)

lemma str_int_65535: "str_int 65535 = ''65535''"
  by (simp add: str_int_def str_nat.simps digit_char_def)

lemma str_int_2000: "str_int 2000 = ''2000''"
  by (simp add: str_int_def str_nat.simps digit_char_def)

lemma str_int_8: "str_int 8 = ''8''"
  by (simp add: str_int_def str_nat.simps digit_char_def)

lemma char_type_not_earlier:
  "t \<in> set rs_char_types \<Longrightarrow> t \<notin> set rs_date_types \<and> t \<noteq> ''uuid''"
  by (auto simp add: rs_char_types_def rs_date_types_def)

lemma target_data_type_char:
  assumes "data_type f \<in> set rs_char_types"
  shows "target_data_type f =
     (case char_size f of
           Inl e \<Rightarrow> Inl e
         | Inr sz \<Rightarrow>
             Inr (if data_type f = ''timestamp'' \<or> character_maximum_length f \<noteq> None
                  then char_field_type f @ '' ('' @ str_int sz @ '')''
                  else ''varchar(2000)''))"
  using char_type_not_earlier [OF assms] assms by (simp add: target_data_type_def)

text \<open>
  C6. For a column of a character type (a member of \<open>rs_char_types\<close>): the type
  \<open>timestamp\<close> is emitted as \<open>varchar (8)\<close>; otherwise, with a declared length \<open>n\<close>,
  the width is 65535 when \<open>n > 65535\<close>, 2000 when \<open>n < 0\<close>, and \<open>n\<close> itself in between.
  The type name is kept, except that \<open>text\<close> is emitted as \<open>varchar\<close>.
\<close>

theorem char_width_clamped:
  "data_type f \<in> set rs_char_types \<Longrightarrow>
     (data_type f = ''timestamp'' \<longrightarrow> target_data_type f = Inr ''varchar (8)'')
   \<and> (data_type f \<noteq> ''timestamp'' \<and> character_maximum_length f = Some n \<and> n > 65535 \<longrightarrow>
        target_data_type f
          = Inr ((if data_type f = ''text'' then ''varchar'' else data_type f) @ '' (65535)''))
   \<and> (data_type f \<noteq> ''timestamp'' \<and> character_maximum_length f = Some n \<and> n < 0 \<longrightarrow>
        target_data_type f
          = Inr ((if data_type f = ''text'' then ''varchar'' else data_type f) @ '' (2000)''))
   \<and> (data_type f \<noteq> ''timestamp'' \<and> character_maximum_length f = Some n
         \<and> 0 \<le> n \<and> n \<le> 65535 \<longrightarrow>
        target_data_type f
          = Inr ((if data_type f = ''text'' then ''varchar'' else data_type f)
                 @ '' ('' @ str_int n @ '')''))"
proof -
  assume a: "data_type f \<in> set rs_char_types"
  show ?thesis
    unfolding target_data_type_char [OF a]
    by (simp add: char_size_def char_field_type_def str_int_65535 str_int_2000 str_int_8)
qed

lemma str_int_10: "str_int 10 = ''10''"
  by (simp add: str_int_def str_nat.simps digit_char_def)

theorem char_width_clamped_witness:
  "target_data_type \<lparr>column_name = ''c'', data_type = ''timestamp'',
       character_maximum_length = None, numeric_precision = None, numeric_scale = None\<rparr>
     = Inr ''varchar (8)''
   \<and> target_data_type \<lparr>column_name = ''c'', data_type = ''nvarchar'',
       character_maximum_length = Some 100000, numeric_precision = None, numeric_scale = None\<rparr>
     = Inr ''nvarchar (65535)''
   \<and> target_data_type \<lparr>column_name = ''c'', data_type = ''text'',
       character_maximum_length = Some (-1), numeric_precision = None, numeric_scale = None\<rparr>
     = Inr ''varchar (2000)''
   \<and> target_data_type \<lparr>column_name = ''c'', data_type = ''char'',
       character_maximum_length = Some 10, numeric_precision = None, numeric_scale = None\<rparr>
     = Inr ''char (10)''"
  using
    char_width_clamped [of "\<lparr>column_name = ''c'', data_type = ''timestamp'',
       character_maximum_length = None, numeric_precision = None, numeric_scale = None\<rparr>" 0]
    char_width_clamped [of "\<lparr>column_name = ''c'', data_type = ''nvarchar'',
       character_maximum_length = Some 100000, numeric_precision = None, numeric_scale = None\<rparr>" 100000]
    char_width_clamped [of "\<lparr>column_name = ''c'', data_type = ''text'',
       character_maximum_length = Some (-1), numeric_precision = None, numeric_scale = None\<rparr>" "-1"]
    char_width_clamped [of "\<lparr>column_name = ''c'', data_type = ''char'',
       character_maximum_length = Some 10, numeric_precision = None, numeric_scale = None\<rparr>" 10]
  by (simp add: rs_char_types_def str_int_10)

subsection \<open>Reconciliation\<close>

lemma bitlen_0: "bitlen 0 = 0"
  by (simp add: bitlen.simps)

lemma bitlen_Suc0: "bitlen (Suc 0) = Suc 0"
  by (simp add: bitlen.simps)

lemma bitlen_numeral: "bitlen (numeral k) = Suc (bitlen (numeral k div 2))"
  by (subst bitlen.simps) simp

lemmas bitlen_eval = bitlen_0 bitlen_Suc0 bitlen_numeral

lemma bitlen_le: "m < 2 ^ k \<Longrightarrow> bitlen m \<le> k"
proof (induction k arbitrary: m)
  case 0
  then show ?case by (simp add: bitlen.simps)
next
  case (Suc k)
  show ?case
  proof (cases "m = 0")
    case True
    then show ?thesis by (simp add: bitlen.simps)
  next
    case False
    from Suc.prems have "m div 2 < 2 ^ k" by simp
    then have "bitlen (m div 2) \<le> k" by (rule Suc.IH)
    with False show ?thesis by (subst bitlen.simps) simp
  qed
qed

lemma bitlen_pos: "0 < m \<Longrightarrow> 0 < bitlen m"
  by (subst bitlen.simps) simp

lemma round_half_even_of_int: "round_half_even (of_int k) = k"
  by (simp add: round_half_even_def)

lemma pow2_nonpos: "k \<le> 0 \<Longrightarrow> pow2 k = 1 / 2 ^ nat (- k)"
  by (cases "k = 0") (simp_all add: pow2_def)

lemma round_double_of_int:
  assumes "\<bar>n\<bar> < 2 ^ 53"
  shows "round_double (of_int n) = of_int n"
proof (cases "n = 0")
  case True
  then show ?thesis by (simp add: round_double_def)
next
  case False
  define m where "m = nat \<bar>n\<bar>"
  have m: "0 < m" "m < 2 ^ 53" "of_int \<bar>n\<bar> = (of_nat m :: real)"
    using False assms by (simp_all add: m_def nat_less_iff)
  define e where "e = int (bitlen m) - 1"
  have e: "0 \<le> e" "e \<le> 52"
    using bitlen_pos [OF m(1)] bitlen_le [OF m(2)] by (simp_all add: e_def)
  have a: "\<bar>of_int n :: real\<bar> = of_nat m"
    using m(3) by simp
  have be: "binary_exponent (of_nat m) = e"
    using m(1) by (simp add: binary_exponent_def e_def)
  define j where "j = nat (52 - e)"
  have u: "pow2 (e - 52) = 1 / 2 ^ j"
    using e by (simp add: pow2_nonpos j_def)
  have q: "(of_nat m :: real) / (1 / 2 ^ j) = of_int (int m * 2 ^ j)"
    by simp
  have r: "round_half_even (of_nat m / pow2 (e - 52)) = int m * 2 ^ j"
    unfolding u q by (rule round_half_even_of_int)
  have mx: "max e (- 1022) = e"
    using e by simp
  have nz: "(of_int n :: real) \<noteq> 0"
    using False by simp
  have "round_double (of_int n)
          = sgn (of_int n) * of_int (round_half_even (of_nat m / pow2 (e - 52))) * pow2 (e - 52)"
    using nz by (simp add: round_double_def a be mx Let_def)
  also have "\<dots> = sgn (of_int n) * of_int (int m * 2 ^ j) * (1 / 2 ^ j)"
    unfolding r unfolding u ..
  also have "\<dots> = sgn (of_int n) * of_nat m"
    by simp
  also have "\<dots> = of_int n"
    using m(3) by (simp add: sgn_if m_def)
  finally show ?thesis .
qed

lemma py_float_exact: "\<bar>n\<bar> < 2 ^ 53 \<Longrightarrow> py_float n = Inr (of_int n)"
proof -
  assume b: "\<bar>n\<bar> < 2 ^ 53"
  then have "\<bar>of_int n :: real\<bar> < 2 ^ 53"
    by (metis of_int_abs of_int_less_numeral_power_cancel_iff)
  also have "\<dots> < (2 :: real) ^ 1024" by simp
  finally show ?thesis
    by (simp add: py_float_def round_double_of_int [OF b])
qed


lemma bitlen_lower: "0 < m \<Longrightarrow> 2 ^ (bitlen m - 1) \<le> m"
proof (induction m rule: bitlen.induct)
  case (1 n)
  show ?case
  proof (cases "n div 2 = 0")
    case True
    with "1.prems" have "n = 1" by (simp add: div_eq_0_iff) 
    then show ?thesis by (simp add: bitlen_eval)
  next
    case False
    then have pos: "0 < n div 2" by simp
    from "1.prems" have nz: "n \<noteq> 0" by simp
    have ih: "2 ^ (bitlen (n div 2) - 1) \<le> n div 2"
      using "1.IH" [OF nz pos] .
    have b: "bitlen n = Suc (bitlen (n div 2))"
      using nz by (subst bitlen.simps) simp
    have "0 < bitlen (n div 2)" using pos by (rule bitlen_pos)
    then have "(2::nat) ^ (bitlen n - 1) = 2 * 2 ^ (bitlen (n div 2) - 1)"
      unfolding b by (cases "bitlen (n div 2)") simp_all
    also have "\<dots> \<le> 2 * (n div 2)" using ih by simp
    also have "\<dots> \<le> n" by simp
    finally show ?thesis .
  qed
qed

lemma pow2_powi: "pow2 k = 2 powi k"
  by (simp add: pow2_def power_int_def field_simps)

lemma pow2_pos: "0 < pow2 k"
  by (simp add: pow2_def)

lemma pow2_add: "pow2 (i + j) = pow2 i * pow2 j"
  by (simp add: pow2_powi power_int_add)

lemma pow2_mono: "i \<le> j \<Longrightarrow> pow2 i \<le> pow2 j"
  by (simp add: pow2_powi power_int_increasing)

lemma pow2_nat: "pow2 (int n) = 2 ^ n"
  by (simp add: pow2_def)

lemma round_half_even_bounds:
  "\<lfloor>x\<rfloor> \<le> round_half_even x \<and> round_half_even x \<le> \<lfloor>x\<rfloor> + 1"
  by (simp add: round_half_even_def Let_def)

lemma round_double_int_bounds:
  assumes "n \<noteq> 0"
  shows "round_double (of_int n) \<noteq> 0 \<and> \<bar>round_double (of_int n)\<bar> \<le> 2 * \<bar>of_int n\<bar>"
proof -
  define m where "m = nat \<bar>n\<bar>"
  have m: "0 < m" "\<bar>of_int n :: real\<bar> = of_nat m"
    using assms by (simp_all add: m_def)
  define e where "e = int (bitlen m) - 1"
  have e0: "0 \<le> e"
    using bitlen_pos [OF m(1)] by (simp add: e_def)
  have be: "binary_exponent (of_nat m) = e"
    using m(1) by (simp add: binary_exponent_def e_def)
  define u where "u = pow2 (e - 52)"
  have u: "0 < u" by (simp add: u_def pow2_pos)
  have "e = int (bitlen m - 1)"
    using bitlen_pos [OF m(1)] by (simp add: e_def)
  then have "pow2 e = 2 ^ (bitlen m - 1)"
    by (simp add: pow2_nat)
  also have "\<dots> \<le> real m"
    using bitlen_lower [OF m(1)] by (metis of_nat_le_iff of_nat_numeral of_nat_power)
  finally have lo: "pow2 e \<le> real m" .
  have "pow2 e = pow2 52 * u"
    using pow2_add [of 52 "e - 52"] by (simp add: u_def)
  then have pe: "pow2 e = 2 ^ 52 * u"
    by (simp add: pow2_def)
  have q: "2 ^ 52 \<le> real m / u"
    using lo u by (simp add: pe pos_le_divide_eq)
  define k where "k = round_half_even (real m / u)"
  have fl: "(2 ^ 52 :: int) \<le> \<lfloor>real m / u\<rfloor>"
    using q by (simp add: le_floor_iff)
  have k_lo: "2 ^ 52 \<le> k"
    using fl round_half_even_bounds [of "real m / u"] unfolding k_def by linarith
  have "of_int k \<le> of_int \<lfloor>real m / u\<rfloor> + (1 :: real)"
    using round_half_even_bounds [of "real m / u"] unfolding k_def
    by (metis of_int_1 of_int_add of_int_le_iff)
  also have "\<dots> \<le> real m / u + 1"
    by simp
  finally have k_hi: "of_int k * u \<le> real m + u"
    using u by (simp add: field_simps)
  have "u \<le> pow2 e"
    unfolding u_def by (rule pow2_mono) simp
  with lo have ule: "u \<le> real m" by simp
  have nz: "(of_int n :: real) \<noteq> 0" using assms by simp
  have mx: "max e (- 1022) = e" using e0 by simp
  have rd: "round_double (of_int n) = sgn (of_int n) * of_int k * u"
    using nz by (simp add: round_double_def m(2) be mx Let_def k_def u_def)
  have kpos: "0 < (of_int k :: real)"
    using k_lo by simp
  have "\<bar>round_double (of_int n)\<bar> = of_int k * u"
    using nz kpos u by (simp add: rd abs_mult abs_sgn_eq)
  moreover have "0 < of_int k * u"
    using kpos u by simp
  ultimately show ?thesis
    using k_hi ule m(2) by simp
qed

lemma py_float_int65:
  assumes "\<bar>n\<bar> < 2 ^ 64"
  shows "py_float n = Inr (round_double (of_int n))"
proof (cases "n = 0")
  case True
  then show ?thesis by (simp add: py_float_def round_double_def)
next
  case False
  have "\<bar>of_int n :: real\<bar> < 2 ^ 64"
    using assms by (metis of_int_abs of_int_less_numeral_power_cancel_iff)
  with round_double_int_bounds [OF False]
  have "\<bar>round_double (of_int n)\<bar> < 2 * 2 ^ 64" by simp
  also have "\<dots> < (2 :: real) ^ 1024" by simp
  finally show ?thesis by (simp add: py_float_def)
qed

lemma pct_diff_int64:
  assumes "\<bar>src\<bar> < 2 ^ 63" and "\<bar>tgt\<bar> < 2 ^ 63"
  shows "\<exists>p. pct_diff src tgt = Inr p"
proof -
  have "\<bar>src - tgt\<bar> < 2 ^ 64" using assms by simp
  then have fd: "py_float (src - tgt) = Inr (round_double (of_int (src - tgt)))"
    by (rule py_float_int65)
  have "\<bar>if src \<noteq> 0 then src else 1\<bar> < 2 ^ 64" using assms(1) by simp
  then have fs: "py_float (if src \<noteq> 0 then src else 1)
                   = Inr (round_double (of_int (if src \<noteq> 0 then src else 1)))"
    by (rule py_float_int65)
  have "(if src \<noteq> 0 then src else 1) \<noteq> 0" by simp
  then have nz: "round_double (of_int (if src \<noteq> 0 then src else 1)) \<noteq> 0"
    using round_double_int_bounds by blast
  show ?thesis
    unfolding pct_diff_def float_truediv_int_def fd fs
    using nz by simp
qed

lemma pct_diff_exact:
  assumes "\<bar>src\<bar> < 2 ^ 53" and "\<bar>src - tgt\<bar> < 2 ^ 53"
  shows "pct_diff src tgt = Inr (round_double (relative_diff src tgt))"
proof -
  have fd: "py_float (src - tgt) = Inr (of_int (src - tgt))"
    by (rule py_float_exact [OF assms(2)])
  have "\<bar>if src \<noteq> 0 then src else 1\<bar> < 2 ^ 53"
    using assms(1) by simp
  then have fs: "py_float (if src \<noteq> 0 then src else 1)
                   = Inr (of_int (if src \<noteq> 0 then src else 1))"
    by (rule py_float_exact)
  have nz: "(of_int (if src \<noteq> 0 then src else 1) :: real) \<noteq> 0"
    by simp
  have rd: "relative_diff src tgt
              = of_int (src - tgt) / of_int (if src \<noteq> 0 then src else 1)"
    by (simp add: relative_diff_def)
  show ?thesis
    unfolding pct_diff_def float_truediv_int_def fd fs rd
    using nz by (simp del: of_int_diff)
qed

lemma count_check_exact:
  assumes "\<bar>src\<bar> < 2 ^ 53" and "\<bar>src - tgt\<bar> < 2 ^ 53"
  shows "count_check src tgt thr =
     (if thr < round_double (relative_diff src tgt)
      then Inl (CountCheckFailed (src - tgt) (round_double (relative_diff src tgt)))
      else Inr (src - tgt, round_double (relative_diff src tgt)))"
  by (simp add: count_check_def pct_diff_exact [OF assms] Let_def)

lemma binary_exponent_hundredth: "binary_exponent (1 / 100) = - 7"
  by (simp add: binary_exponent_def bitlen_eval)

lemma binary_exponent_11_1000: "binary_exponent (11 / 1000) = - 7"
  by (simp add: binary_exponent_def bitlen_eval)

lemma round_double_hundredth: "round_double (1 / 100) = 5764607523034235 / 2 ^ 59"
  by (simp add: round_double_def binary_exponent_hundredth pow2_def round_half_even_def Let_def)

lemma round_double_11_1000: "round_double (11 / 1000) = 6341068275337658 / 2 ^ 59"
  by (simp add: round_double_def binary_exponent_11_1000 pow2_def round_half_even_def Let_def)

lemma default_pct_threshold_pos: "0 < default_pct_threshold"
  by (simp add: default_pct_threshold_def round_double_hundredth)

lemma bitlen_upper: "m < 2 ^ bitlen m"
proof (induction m rule: bitlen.induct)
  case (1 n)
  show ?case
  proof (cases "n = 0")
    case True
    then show ?thesis by simp
  next
    case False
    have b: "bitlen n = Suc (bitlen (n div 2))"
      using False by (subst bitlen.simps) simp
    have "n div 2 < 2 ^ bitlen (n div 2)" using "1.IH" [OF False] .
    then have "n < 2 * 2 ^ bitlen (n div 2)" by linarith
    then show ?thesis by (simp add: b)
  qed
qed

lemma pow2_strict_mono: "i < j \<Longrightarrow> pow2 i < pow2 j"
  by (simp add: pow2_powi power_int_strict_increasing)

lemma pow2_less_cancel: "pow2 i < pow2 j \<Longrightarrow> i < j"
  using pow2_mono [of j i] by (cases "i < j") auto

lemma binary_exponent_ge1:
  assumes "1 \<le> a"
  shows "pow2 (binary_exponent a) \<le> a \<and> a < pow2 (binary_exponent a + 1)"
proof -
  define m where "m = nat \<lfloor>a\<rfloor>"
  have m: "0 < m" "real m \<le> a" "a < real m + 1"
    using assms by (simp_all add: m_def)
  have be: "binary_exponent a = int (bitlen m) - 1"
    using assms by (simp add: binary_exponent_def m_def)
  have bp: "0 < bitlen m" using m(1) by (rule bitlen_pos)
  then have e1: "binary_exponent a = int (bitlen m - 1)"
    by (simp add: be)
  have e2: "binary_exponent a + 1 = int (bitlen m)"
    by (simp add: be)
  have "pow2 (binary_exponent a) = 2 ^ (bitlen m - 1)"
    unfolding e1 by (rule pow2_nat)
  also have "\<dots> \<le> real m"
    using bitlen_lower [OF m(1)] by (metis of_nat_le_iff of_nat_numeral of_nat_power)
  finally have lo: "pow2 (binary_exponent a) \<le> a" using m(2) by simp
  have "m + 1 \<le> 2 ^ bitlen m" using bitlen_upper [of m] by simp
  then have "real (m + 1) \<le> 2 ^ bitlen m"
    by (metis of_nat_le_iff of_nat_numeral of_nat_power)
  then have "a < 2 ^ bitlen m" using m(3) by simp
  then have "a < pow2 (binary_exponent a + 1)"
    unfolding e2 by (simp add: pow2_nat)
  with lo show ?thesis by simp
qed

lemma binary_exponent_lt1:
  assumes "0 < a" and "a < 1"
  shows "pow2 (binary_exponent a) \<le> a \<and> a < pow2 (binary_exponent a + 1)"
proof -
  define y where "y = 1 / a"
  have y: "1 < y" using assms by (simp add: y_def)
  define m where "m = nat (\<lceil>y\<rceil> - 1)"
  have c: "2 \<le> \<lceil>y\<rceil>" using y by linarith
  have m: "0 < m" "real m < y" "y \<le> real m + 1"
    using c by (simp_all add: m_def) linarith+
  have be: "binary_exponent a = - int (bitlen m)"
    using assms by (simp add: binary_exponent_def m_def y_def)
  have bp: "0 < bitlen m" using m(1) by (rule bitlen_pos)
  have "m + 1 \<le> 2 ^ bitlen m" using bitlen_upper [of m] by simp
  then have "real (m + 1) \<le> 2 ^ bitlen m"
    by (metis of_nat_le_iff of_nat_numeral of_nat_power)
  then have yu: "y \<le> 2 ^ bitlen m" using m(3) by simp
  have "(2::real) ^ (bitlen m - 1) \<le> real m"
    using bitlen_lower [OF m(1)] by (metis of_nat_le_iff of_nat_numeral of_nat_power)
  then have yl: "2 ^ (bitlen m - 1) < y" using m(2) by linarith
  have p1: "pow2 (binary_exponent a) = 1 / 2 ^ bitlen m"
    unfolding be by (simp add: pow2_nonpos)
  have "binary_exponent a + 1 = - int (bitlen m - 1)"
    using bp by (simp add: be)
  then have p2: "pow2 (binary_exponent a + 1) = 1 / 2 ^ (bitlen m - 1)"
    by (simp add: pow2_nonpos)
  have a: "a = 1 / y" using assms by (simp add: y_def)
  have "1 / 2 ^ bitlen m \<le> 1 / y"
    using yu y by (simp add: frac_le)
  moreover have "1 / y < 1 / 2 ^ (bitlen m - 1)"
    using yl by (simp add: frac_less2)
  ultimately have "1 / 2 ^ bitlen m \<le> a \<and> a < 1 / 2 ^ (bitlen m - 1)"
    unfolding a by simp
  then show ?thesis
    by (simp only: p1 p2)
qed

lemma binary_exponent_correct:
  "0 < a \<Longrightarrow> pow2 (binary_exponent a) \<le> a \<and> a < pow2 (binary_exponent a + 1)"
  using binary_exponent_ge1 [of a] binary_exponent_lt1 [of a] by (cases "1 \<le> a") auto

lemma binary_exponent_unique:
  assumes "pow2 E \<le> a" and "a < pow2 (E + 1)"
  shows "binary_exponent a = E"
proof -
  have pos: "0 < a" using assms(1) pow2_pos [of E] by linarith
  note c = binary_exponent_correct [OF pos]
  have "pow2 (binary_exponent a) < pow2 (E + 1)" using c assms(2) by linarith
  then have 1: "binary_exponent a < E + 1" by (rule pow2_less_cancel)
  have "pow2 E < pow2 (binary_exponent a + 1)" using c assms(1) by linarith
  then have 2: "E < binary_exponent a + 1" by (rule pow2_less_cancel)
  from 1 2 show ?thesis by simp
qed

lemma round_half_even_mono: "x \<le> y \<Longrightarrow> round_half_even x \<le> round_half_even y"
proof -
  assume xy: "x \<le> y"
  have fl: "\<lfloor>x\<rfloor> \<le> \<lfloor>y\<rfloor>" using xy by (rule floor_mono)
  show ?thesis
  proof (cases "\<lfloor>x\<rfloor> = \<lfloor>y\<rfloor>")
    case True
    with xy show ?thesis
      by (auto simp add: round_half_even_def Let_def)
  next
    case False
    with fl have "\<lfloor>x\<rfloor> + 1 \<le> \<lfloor>y\<rfloor>" by simp
    then show ?thesis
      using round_half_even_bounds [of x] round_half_even_bounds [of y] by linarith
  qed
qed

lemma round_double_pos:
  assumes "0 < x"
  shows "round_double x
           = of_int (round_half_even (x / pow2 (max (binary_exponent x) (- 1022) - 52)))
             * pow2 (max (binary_exponent x) (- 1022) - 52)"
  using assms by (simp add: round_double_def Let_def)

lemma round_double_nonpos: "x \<le> 0 \<Longrightarrow> round_double x \<le> 0"
proof (cases "x = 0")
  case True
  then show ?thesis by (simp add: round_double_def)
next
  case False
  assume "x \<le> 0"
  with False have neg: "x < 0" by simp
  define u where "u = pow2 (max (binary_exponent \<bar>x\<bar>) (- 1022) - 52)"
  have u: "0 < u" by (simp add: u_def pow2_pos)
  have "0 \<le> \<bar>x\<bar> / u" using u by simp
  then have "0 \<le> \<lfloor>\<bar>x\<bar> / u\<rfloor>" by simp
  then have k: "0 \<le> round_half_even (\<bar>x\<bar> / u)"
    using round_half_even_bounds [of "\<bar>x\<bar> / u"] by linarith
  have "round_double x = - (of_int (round_half_even (\<bar>x\<bar> / u)) * u)"
    using neg by (simp add: round_double_def Let_def u_def)
  also have "\<dots> \<le> 0" using k u by simp
  finally show ?thesis .
qed

lemma round_half_even_le_int:
  assumes "x \<le> of_int N"
  shows "round_half_even x \<le> N"
proof (cases "x = of_int N")
  case True
  then show ?thesis by (simp add: round_half_even_of_int)
next
  case False
  with assms have "x < of_int N" by simp
  then have "\<lfloor>x\<rfloor> < N" by (simp add: floor_less_iff)
  then show ?thesis using round_half_even_bounds [of x] by linarith
qed

lemma round_half_even_ge_int:
  assumes "of_int N \<le> x"
  shows "N \<le> round_half_even x"
proof -
  have "N \<le> \<lfloor>x\<rfloor>" using assms by (simp add: le_floor_iff)
  then show ?thesis using round_half_even_bounds [of x] by linarith
qed

lemma pow2_diff_nat: "j \<le> i \<Longrightarrow> pow2 i / pow2 j = 2 ^ nat (i - j)"
proof -
  assume ji: "j \<le> i"
  have "pow2 i = pow2 (i - j) * pow2 j"
    using pow2_add [of "i - j" j] by simp
  moreover have "pow2 (i - j) = 2 ^ nat (i - j)"
    using ji by (simp add: pow2_def)
  ultimately show ?thesis using pow2_pos [of j] by simp
qed

lemma round_double_upper:
  assumes "0 < x" and "x < pow2 E" and "- 1022 \<le> E"
  shows "round_double x \<le> pow2 E"
proof -
  define e where "e = max (binary_exponent x) (- 1022)"
  define u where "u = pow2 (e - 52)"
  have u: "0 < u" by (simp add: u_def pow2_pos)
  have "pow2 (binary_exponent x) < pow2 E"
    using binary_exponent_correct [OF assms(1)] assms(2) by linarith
  then have "binary_exponent x < E" by (rule pow2_less_cancel)
  then have eE: "e - 52 \<le> E" using assms(3) by (simp add: e_def)
  have r: "pow2 E / u = 2 ^ nat (E - (e - 52))"
    unfolding u_def by (rule pow2_diff_nat [OF eE])
  have "x / u \<le> pow2 E / u" using assms(2) u by (simp add: divide_right_mono)
  then have "x / u \<le> of_int (2 ^ nat (E - (e - 52)))" by (simp add: r)
  then have "round_half_even (x / u) \<le> 2 ^ nat (E - (e - 52))"
    by (rule round_half_even_le_int)
  then have "(of_int (round_half_even (x / u)) :: real) \<le> of_int (2 ^ nat (E - (e - 52)))"
    by (simp only: of_int_le_iff)
  then have "of_int (round_half_even (x / u)) \<le> pow2 E / u" by (simp add: r)
  then have "of_int (round_half_even (x / u)) * u \<le> pow2 E"
    using u by (simp add: pos_le_divide_eq)
  then show ?thesis
    by (simp add: round_double_pos [OF assms(1)] e_def u_def)
qed

lemma round_double_lower:
  assumes "pow2 E \<le> x" and "- 1022 \<le> E"
  shows "pow2 E \<le> round_double x"
proof -
  have pos: "0 < x" using assms(1) pow2_pos [of E] by linarith
  define e where "e = max (binary_exponent x) (- 1022)"
  define u where "u = pow2 (e - 52)"
  have u: "0 < u" by (simp add: u_def pow2_pos)
  have "pow2 E < pow2 (binary_exponent x + 1)"
    using binary_exponent_correct [OF pos] assms(1) by linarith
  then have "E < binary_exponent x + 1" by (rule pow2_less_cancel)
  then have be: "E \<le> binary_exponent x" by simp
  then have e: "e = binary_exponent x" using assms(2) by (simp add: e_def)
  have r: "pow2 e / u = 2 ^ nat (e - (e - 52))"
    unfolding u_def by (rule pow2_diff_nat) simp
  then have r52: "pow2 e = 2 ^ 52 * u" using u by (simp add: field_simps)
  have "pow2 e \<le> x" unfolding e using binary_exponent_correct [OF pos] by simp
  then have "of_int (2 ^ 52) \<le> x / u" using u by (simp add: r52 pos_le_divide_eq)
  then have "2 ^ 52 \<le> round_half_even (x / u)"
    by (rule round_half_even_ge_int)
  then have "(of_int (2 ^ 52) :: real) \<le> of_int (round_half_even (x / u))"
    by (simp only: of_int_le_iff)
  then have "2 ^ 52 * u \<le> of_int (round_half_even (x / u)) * u"
    using u by simp
  then have "pow2 e \<le> round_double x"
    by (simp add: round_double_pos [OF pos] e_def u_def r52 [unfolded e_def u_def])
  moreover have "pow2 E \<le> pow2 e" using be e by (simp add: pow2_mono)
  ultimately show ?thesis by linarith
qed

lemma round_double_mono_binade:
  assumes "pow2 E \<le> x" and "x \<le> y" and "y < pow2 (E + 1)" and "- 1022 \<le> E"
  shows "round_double x \<le> round_double y"
proof -
  have px: "0 < x" using assms(1) pow2_pos [of E] by linarith
  have py: "0 < y" using px assms(2) by linarith
  have ex: "binary_exponent x = E"
    using assms by (intro binary_exponent_unique) linarith+
  have ey: "binary_exponent y = E"
    using assms by (intro binary_exponent_unique) linarith+
  define u where "u = pow2 (max E (- 1022) - 52)"
  have u: "0 < u" by (simp add: u_def pow2_pos)
  have "x / u \<le> y / u" using assms(2) u by (simp add: divide_right_mono)
  then have "round_half_even (x / u) \<le> round_half_even (y / u)"
    by (rule round_half_even_mono)
  then have "(of_int (round_half_even (x / u)) :: real) * u \<le> of_int (round_half_even (y / u)) * u"
    using u by simp
  then show ?thesis
    by (simp add: round_double_pos [OF px] round_double_pos [OF py] ex ey u_def)
qed

lemma pow2_m7: "pow2 (- 7) = 1 / 128"
  by (simp add: pow2_def)

lemma pow2_m6: "pow2 (- 6) = 1 / 64"
  by (simp add: pow2_def)

lemma round_double_le_threshold:
  assumes "q \<le> 1 / 100"
  shows "round_double q \<le> default_pct_threshold"
proof -
  have T: "default_pct_threshold = 5764607523034235 / 2 ^ 59"
    by (simp add: default_pct_threshold_def round_double_hundredth)
  consider "q \<le> 0" | "0 < q" "q < pow2 (- 7)" | "pow2 (- 7) \<le> q"
    by linarith
  then show ?thesis
  proof cases
    case 1
    then have "round_double q \<le> 0" by (rule round_double_nonpos)
    then show ?thesis using default_pct_threshold_pos by linarith
  next
    case 2
    then have "round_double q \<le> pow2 (- 7)"
      by (intro round_double_upper) simp_all
    then show ?thesis by (simp add: T pow2_m7)
  next
    case 3
    have "round_double q \<le> round_double (1 / 100)"
      using 3 assms by (intro round_double_mono_binade [of "- 7"]) (simp_all add: pow2_m6)
    then show ?thesis by (simp add: default_pct_threshold_def)
  qed
qed

lemma above_hundredth: "1 / 100 + 1 / (100 * 2 ^ 53) = (9007199254740993 / 900719925474099200 :: real)"
  by simp

lemma binary_exponent_above_hundredth:
  "binary_exponent (9007199254740993 / 900719925474099200) = - 7"
  by (simp add: binary_exponent_def bitlen_eval)

lemma round_double_above_hundredth:
  "round_double (9007199254740993 / 900719925474099200) = 5764607523034236 / 2 ^ 59"
  by (simp add: round_double_def binary_exponent_above_hundredth pow2_def
        round_half_even_def Let_def)

lemma round_double_gt_threshold:
  assumes "1 / 100 + 1 / (100 * 2 ^ 53) \<le> q"
  shows "default_pct_threshold < round_double q"
proof -
  have T: "default_pct_threshold = 5764607523034235 / 2 ^ 59"
    by (simp add: default_pct_threshold_def round_double_hundredth)
  have B: "9007199254740993 / 900719925474099200 \<le> q"
    using assms unfolding above_hundredth .
  show ?thesis
  proof (cases "q < pow2 (- 6)")
    case True
    have "round_double (9007199254740993 / 900719925474099200) \<le> round_double q"
      using True B by (intro round_double_mono_binade [of "- 7"]) (simp_all add: pow2_m7)
    then have h: "5764607523034236 / 2 ^ 59 \<le> round_double q"
      by (simp only: round_double_above_hundredth)
    have lt: "(5764607523034235 / 2 ^ 59 :: real) < 5764607523034236 / 2 ^ 59"
      by simp
    from lt h show ?thesis unfolding T by (rule less_le_trans)
  next
    case False
    then have "pow2 (- 6) \<le> round_double q"
      by (intro round_double_lower) simp_all
    then have h: "1 / 64 \<le> round_double q" by (simp only: pow2_m6)
    have lt: "(5764607523034235 / 2 ^ 59 :: real) < 1 / 64"
      by simp
    from lt h show ?thesis unfolding T by (rule less_le_trans)
  qed
qed

lemma relative_diff_gap:
  assumes "0 \<le> src" and "src < 2 ^ 53" and "1 / 100 < relative_diff src tgt"
  shows "1 / 100 + 1 / (100 * 2 ^ 53) \<le> relative_diff src tgt"
proof -
  define s where "s = (if src = 0 then 1 else src)"
  define d where "d = src - tgt"
  have s: "0 < s" "s < 2 ^ 53" using assms(1,2) by (simp_all add: s_def)
  have rd: "relative_diff src tgt = of_int d / of_int s"
    by (simp add: relative_diff_def s_def d_def)
  have sr: "0 < (of_int s :: real)" using s(1) by simp
  have "(of_int s :: real) < 100 * of_int d"
    using assms(3) sr unfolding rd by (simp add: pos_less_divide_eq)
  then have "s < 100 * d"
    by (metis of_int_less_iff of_int_mult of_int_numeral)
  then have "s + 1 \<le> 100 * d" by simp
  then have "(of_int (s + 1) :: real) \<le> of_int (100 * d)"
    by (simp only: of_int_le_iff)
  then have g: "(of_int s :: real) + 1 \<le> 100 * of_int d" by simp
  have "(of_int s :: real) < 2 ^ 53"
    using s(2) by (metis of_int_less_numeral_power_cancel_iff)
  then have "(of_int s :: real) / 2 ^ 53 \<le> 1" by simp
  with g have "(of_int s :: real) + of_int s / 2 ^ 53 \<le> 100 * of_int d" by linarith
  then have "(1 / 100 + 1 / (100 * 2 ^ 53)) * of_int s \<le> (of_int d :: real)"
    by (simp add: field_simps)
  then show ?thesis
    unfolding rd using sr by (simp add: pos_le_divide_eq)
qed

lemma count_check_default_exact:
  assumes "0 \<le> src" and "src < 2 ^ 53" and "\<bar>src - tgt\<bar> < 2 ^ 53"
  shows "isl (count_check src tgt default_pct_threshold) \<longleftrightarrow> 1 / 100 < relative_diff src tgt"
proof -
  have a: "\<bar>src\<bar> < 2 ^ 53" using assms(1,2) by simp
  have c: "isl (count_check src tgt default_pct_threshold)
             \<longleftrightarrow> default_pct_threshold < round_double (relative_diff src tgt)"
    by (simp add: count_check_exact [OF a assms(3)])
  show ?thesis
  proof
    assume "isl (count_check src tgt default_pct_threshold)"
    with c have "default_pct_threshold < round_double (relative_diff src tgt)" by simp
    then show "1 / 100 < relative_diff src tgt"
      using round_double_le_threshold [of "relative_diff src tgt"] by linarith
  next
    assume "1 / 100 < relative_diff src tgt"
    then have "1 / 100 + 1 / (100 * 2 ^ 53) \<le> relative_diff src tgt"
      by (rule relative_diff_gap [OF assms(1,2)])
    then have "default_pct_threshold < round_double (relative_diff src tgt)"
      by (rule round_double_gt_threshold)
    with c show "isl (count_check src tgt default_pct_threshold)" by simp
  qed
qed

lemma check_tgt_count_run:
  assumes "raises w tr (PgFetchSqlAll (count_sql tgt_table)) = None"
  shows "check_tgt_count w src tgt_table thr tr
         = (count_check src (tgt_count w tr (count_sql tgt_table)) thr,
            tr @ [PgFetchSqlAll (count_sql tgt_table)])"
  using assms by (simp add: check_tgt_count_def io_bind_def io_lift_def ask_def)

lemma binary_exponent_large_diff: "binary_exponent 10000000000000001 = 53"
  by (simp add: binary_exponent_def bitlen_eval)

lemma binary_exponent_large_src: "binary_exponent 1000000000000000000 = 59"
  by (simp add: binary_exponent_def bitlen_eval)

lemma round_double_large_diff: "round_double 10000000000000001 = 10000000000000000"
  by (simp add: round_double_def binary_exponent_large_diff pow2_def round_half_even_def Let_def)

lemma round_double_large_src: "round_double 1000000000000000000 = 1000000000000000000"
  by (simp add: round_double_def binary_exponent_large_src pow2_def round_half_even_def Let_def)

lemma pct_diff_large:
  "pct_diff 1000000000000000000 989999999999999999 = Inr default_pct_threshold"
proof -
  have d: "py_float 10000000000000001 = Inr 10000000000000000"
    using py_float_int65 [of 10000000000000001] by (simp add: round_double_large_diff)
  have s: "py_float 1000000000000000000 = Inr 1000000000000000000"
    using py_float_int65 [of 1000000000000000000] by (simp add: round_double_large_src)
  show ?thesis
    by (simp add: pct_diff_def float_truediv_int_def d s default_pct_threshold_def)
qed

text \<open>
  C5, as stated, fails for counts that a float does not represent: with a source count of
  \<open>10 ^ 18\<close> and a target count of \<open>10 ^ 18 - 10 ^ 16 - 1\<close> the difference
  \<open>10 ^ 16 + 1\<close> is converted to the float \<open>10 ^ 16\<close>, the relative difference computed is
  the threshold 0.01 itself, and \<open>check_tgt_count\<close> returns, although
  \<open>(source_count - target_count) / source_count\<close> is greater than the threshold.
\<close>

theorem large_counts_pass_above_threshold:
  "check_tgt_count ((quiet_world [] True)\<lparr>tgt_count := (\<lambda>tr q. 989999999999999999)\<rparr>)
      1000000000000000000 ''stage.orders'' default_pct_threshold []
     = (Inr (10000000000000001, default_pct_threshold),
        [PgFetchSqlAll (count_sql ''stage.orders'')])
   \<and> default_pct_threshold < relative_diff 1000000000000000000 989999999999999999"
proof
  show "check_tgt_count ((quiet_world [] True)\<lparr>tgt_count := (\<lambda>tr q. 989999999999999999)\<rparr>)
      1000000000000000000 ''stage.orders'' default_pct_threshold []
     = (Inr (10000000000000001, default_pct_threshold),
        [PgFetchSqlAll (count_sql ''stage.orders'')])"
    by (subst check_tgt_count_run)
       (simp_all add: quiet_world_def count_check_def pct_diff_large Let_def)
  show "default_pct_threshold < relative_diff 1000000000000000000 989999999999999999"
    by (simp add: default_pct_threshold_def round_double_hundredth relative_diff_def)
qed

text \<open>
  C5, amended. After the count query has returned the target count, for counts below
  \<open>2 ^ 53\<close> in magnitude (which the conversion to float represents exactly)
  \<open>check_tgt_count\<close> computes the relative difference as the float nearest to
  \<open>(source_count - target_count) / source_count\<close>, the denominator being 1 for a zero source
  count, raises exactly when it is strictly greater than the threshold, and returns the
  difference and the relative difference otherwise; with the default threshold 0.01 and a
  source count that is not negative it raises exactly when that quotient itself is greater
  than \<open>1/100\<close>. For all counts of 64 bits the relative difference is computed without an
  error, from the floats of the difference and of the source count, and the check raises
  exactly when the computed value is strictly greater than the threshold. The counts 1000
  and 990 pass, the relative difference being the threshold itself, and the counts 1000 and
  989 fail.
\<close>

theorem check_tgt_count_strict_threshold:
  "(raises w tr (PgFetchSqlAll (count_sql tgt_table)) = None
      \<and> tgt_count w tr (count_sql tgt_table) = tgt \<longrightarrow>
      (\<bar>src\<bar> < 2 ^ 53 \<and> \<bar>src - tgt\<bar> < 2 ^ 53 \<longrightarrow>
         check_tgt_count w src tgt_table thr tr
           = (if thr < round_double (relative_diff src tgt)
              then Inl (CountCheckFailed (src - tgt) (round_double (relative_diff src tgt)))
              else Inr (src - tgt, round_double (relative_diff src tgt)),
              tr @ [PgFetchSqlAll (count_sql tgt_table)]))
      \<and> (0 \<le> src \<and> src < 2 ^ 53 \<and> \<bar>src - tgt\<bar> < 2 ^ 53 \<longrightarrow>
           (isl (fst (check_tgt_count w src tgt_table default_pct_threshold tr))
              \<longleftrightarrow> 1 / 100 < relative_diff src tgt))
      \<and> (\<bar>src\<bar> < 2 ^ 63 \<and> \<bar>tgt\<bar> < 2 ^ 63 \<longrightarrow>
           (\<exists>p. pct_diff src tgt = Inr p
              \<and> check_tgt_count w src tgt_table thr tr
                  = (if thr < p then Inl (CountCheckFailed (src - tgt) p)
                     else Inr (src - tgt, p),
                     tr @ [PgFetchSqlAll (count_sql tgt_table)]))))
   \<and> check_tgt_count ((quiet_world [] True)\<lparr>tgt_count := (\<lambda>tr q. 990)\<rparr>)
        1000 ''stage.orders'' default_pct_threshold []
       = (Inr (10, default_pct_threshold), [PgFetchSqlAll (count_sql ''stage.orders'')])
   \<and> check_tgt_count ((quiet_world [] True)\<lparr>tgt_count := (\<lambda>tr q. 989)\<rparr>)
        1000 ''stage.orders'' default_pct_threshold []
       = (Inl (CountCheckFailed 11 (round_double (11 / 1000))),
          [PgFetchSqlAll (count_sql ''stage.orders'')])"
proof (intro conjI impI)
  assume w: "raises w tr (PgFetchSqlAll (count_sql tgt_table)) = None
      \<and> tgt_count w tr (count_sql tgt_table) = tgt"
  then have run: "\<And>t. check_tgt_count w src tgt_table t tr
      = (count_check src tgt t, tr @ [PgFetchSqlAll (count_sql tgt_table)])"
    by (simp add: check_tgt_count_run)
  {
    assume "\<bar>src\<bar> < 2 ^ 53 \<and> \<bar>src - tgt\<bar> < 2 ^ 53"
    then show "check_tgt_count w src tgt_table thr tr
           = (if thr < round_double (relative_diff src tgt)
              then Inl (CountCheckFailed (src - tgt) (round_double (relative_diff src tgt)))
              else Inr (src - tgt, round_double (relative_diff src tgt)),
              tr @ [PgFetchSqlAll (count_sql tgt_table)])"
      unfolding run by (simp add: count_check_exact)
  next
    assume "0 \<le> src \<and> src < 2 ^ 53 \<and> \<bar>src - tgt\<bar> < 2 ^ 53"
    then show "isl (fst (check_tgt_count w src tgt_table default_pct_threshold tr))
              \<longleftrightarrow> 1 / 100 < relative_diff src tgt"
      unfolding run fst_conv by (intro count_check_default_exact) simp_all
  next
    assume "\<bar>src\<bar> < 2 ^ 63 \<and> \<bar>tgt\<bar> < 2 ^ 63"
    then obtain p where p: "pct_diff src tgt = Inr p"
      using pct_diff_int64 by blast
    then show "\<exists>p. pct_diff src tgt = Inr p
              \<and> check_tgt_count w src tgt_table thr tr
                  = (if thr < p then Inl (CountCheckFailed (src - tgt) p)
                     else Inr (src - tgt, p),
                     tr @ [PgFetchSqlAll (count_sql tgt_table)])"
      unfolding run by (simp add: count_check_def Let_def)
  }
next
  show "check_tgt_count ((quiet_world [] True)\<lparr>tgt_count := (\<lambda>tr q. 990)\<rparr>)
        1000 ''stage.orders'' default_pct_threshold []
       = (Inr (10, default_pct_threshold), [PgFetchSqlAll (count_sql ''stage.orders'')])"
    by (subst check_tgt_count_run, simp add: quiet_world_def, subst count_check_exact)
       (simp_all add: quiet_world_def relative_diff_def default_pct_threshold_def)
next
  show "check_tgt_count ((quiet_world [] True)\<lparr>tgt_count := (\<lambda>tr q. 989)\<rparr>)
        1000 ''stage.orders'' default_pct_threshold []
       = (Inl (CountCheckFailed 11 (round_double (11 / 1000))),
          [PgFetchSqlAll (count_sql ''stage.orders'')])"
    by (subst check_tgt_count_run, simp add: quiet_world_def, subst count_check_exact)
       (simp_all add: quiet_world_def relative_diff_def default_pct_threshold_def
          round_double_hundredth round_double_11_1000)
qed


theorem check_tgt_count_strict_threshold_witness:
  "raises ((quiet_world [] True)\<lparr>tgt_count := (\<lambda>tr q. 4)\<rparr>) []
      (PgFetchSqlAll (count_sql ''stage.orders'')) = None
   \<and> tgt_count ((quiet_world [] True)\<lparr>tgt_count := (\<lambda>tr q. 4)\<rparr>) []
        (count_sql ''stage.orders'') = 4
   \<and> \<bar>5 :: int\<bar> < 2 ^ 53 \<and> \<bar>5 - 4 :: int\<bar> < 2 ^ 53 \<and> (0 :: int) \<le> 5 \<and> (5 :: int) < 2 ^ 53
   \<and> \<bar>5 :: int\<bar> < 2 ^ 63 \<and> \<bar>4 :: int\<bar> < 2 ^ 63
   \<and> check_tgt_count ((quiet_world [] True)\<lparr>tgt_count := (\<lambda>tr q. 4)\<rparr>) 5
        ''stage.orders'' (1 / 2) []
       = (if 1 / 2 < round_double (relative_diff 5 4)
          then Inl (CountCheckFailed (5 - 4) (round_double (relative_diff 5 4)))
          else Inr (5 - 4, round_double (relative_diff 5 4)),
          [PgFetchSqlAll (count_sql ''stage.orders'')])
   \<and> isl (fst (check_tgt_count ((quiet_world [] True)\<lparr>tgt_count := (\<lambda>tr q. 4)\<rparr>) 5
                  ''stage.orders'' default_pct_threshold []))
   \<and> 1 / 100 < relative_diff 5 4"
  using check_tgt_count_strict_threshold
    [where w = "(quiet_world [] True)\<lparr>tgt_count := (\<lambda>tr q. 4)\<rparr>" and tr = "[]"
       and tgt_table = "''stage.orders''" and tgt = 4 and src = 5 and thr = "1 / 2"]
  by (auto simp add: quiet_world_def relative_diff_def)

text \<open>
  C4, as stated, fails: with a source count of 0 and a target count of 1 the difference is
  \<open>- 1\<close>, the relative difference \<open>- 1.0\<close>, which is not greater than 0.01, and the check
  returns.
\<close>

theorem zero_source_one_target_passes:
  "count_check 0 1 default_pct_threshold = Inr (- 1, - 1)"
  using default_pct_threshold_pos
  by (subst count_check_exact) (simp_all add: relative_diff_def round_double_of_int [of "- 1", simplified])

text \<open>
  C4, amended. With a source count of 0 the relative difference is the negated target
  count (the denominator is 1), so the check passes for every target count \<open>0 \<le> t < 2 ^ 53\<close>
  and every threshold \<open>0 \<le> thr\<close>: for the target count 0 and for the target count 1 alike.
\<close>

theorem zero_source_passes:
  "0 \<le> t \<and> t < 2 ^ 53 \<and> 0 \<le> thr \<longrightarrow> count_check 0 t thr = Inr (- t, - of_int t)"
proof
  assume h: "0 \<le> t \<and> t < 2 ^ 53 \<and> 0 \<le> thr"
  then have b: "\<bar>- t\<bar> < 2 ^ 53" by simp
  have r: "round_double (- of_int t) = - of_int t"
    using round_double_of_int [OF b] by simp
  show "count_check 0 t thr = Inr (- t, - of_int t)"
    using h by (subst count_check_exact) (simp_all add: relative_diff_def r)
qed

theorem zero_source_passes_witness:
  "(0 :: int) \<le> 1 \<and> (1 :: int) < 2 ^ 53 \<and> 0 \<le> default_pct_threshold
   \<and> count_check 0 1 default_pct_threshold = Inr (- 1, - of_int 1)
   \<and> count_check 0 0 default_pct_threshold = Inr (- 0, - of_int 0)"
  using zero_source_passes [of 1 default_pct_threshold]
    zero_source_passes [of 0 default_pct_threshold] default_pct_threshold_pos
  by simp

subsection \<open>Normalization\<close>

lemma four_replacements:
  "str_replace (str_replace (str_replace (str_replace s (CHR 0x0A) (CHR '' ''))
       (CHR 0x09) (CHR '' '')) (CHR 0x0D) (CHR '' '')) (CHR 0x0B) (CHR '' '')
   = map (\<lambda>c. if c \<in> {CHR 0x0A, CHR 0x0D, CHR 0x09, CHR 0x0B} then CHR '' '' else c) s"
  by (induction s) (simp_all add: str_replace_def)

text \<open>
  C7. Normalization maps \<open>True\<close> to the integer 1 and \<open>False\<close> to 0, and every other value to
  its string form in which each newline, carriage return, tab and vertical tab is replaced
  by one space and every other character is kept. The row written for an extracted row is
  the list of its normalized values followed by the metadata values, and when the
  extraction query has returned its rows, \<open>source_to_s3\<close> writes exactly these rows to the
  temporary file: every scalar of every extracted row is normalized.
\<close>

theorem normalize_scalar:
  "normalize (PyBool True) = PyInt 1
   \<and> normalize (PyBool False) = PyInt 0
   \<and> ((\<forall>b. s \<noteq> PyBool b) \<longrightarrow>
        normalize s
          = PyStr (map (\<lambda>c. if c \<in> {CHR 0x0A, CHR 0x0D, CHR 0x09, CHR 0x0B} then CHR '' '' else c)
                     (py_str s)))
   \<and> written_row m row = map normalize row @ m
   \<and> (select_str w src_table select_fields tr = (Inr sel, tr')
        \<and> raises w tr' (SqlFetchSql (ce_sql sel src_table
                          (filter_str (from_date self) date_fields))) = None \<longrightarrow>
        prefix (tr' @ [SqlFetchSql (ce_sql sel src_table
                          (filter_str (from_date self) date_fields)),
                       WriteTempFile
                         (''temp/'' @ str_replace tgt_table (CHR ''.'') (CHR ''-'') @ ''.txt'')
                         gzip delimiter
                         (map (\<lambda>row. map normalize row @ meta_values self source_system_cd)
                            (src_rows w tr' (ce_sql sel src_table
                               (filter_str (from_date self) date_fields))))])
          (snd (source_to_s3 w self src_table tgt_table s3_bucket s3_key select_fields
                  date_fields delimiter gzip source_system_cd tr)))"
proof (intro conjI impI)
  show "normalize (PyBool True) = PyInt 1" by (simp add: normalize_def)
  show "normalize (PyBool False) = PyInt 0" by (simp add: normalize_def)
  show "written_row m row = map normalize row @ m" by (simp add: written_row_def)
next
  have "(\<forall>b. s \<noteq> PyBool b) \<longrightarrow>
        normalize s
          = PyStr (map (\<lambda>c. if c \<in> {CHR 0x0A, CHR 0x0D, CHR 0x09, CHR 0x0B} then CHR '' '' else c)
                     (py_str s))"
    by (cases s) (simp_all add: normalize_def four_replacements)
  moreover assume "\<forall>b. s \<noteq> PyBool b"
  ultimately show "normalize s
          = PyStr (map (\<lambda>c. if c \<in> {CHR 0x0A, CHR 0x0D, CHR 0x09, CHR 0x0B} then CHR '' '' else c)
                     (py_str s))"
    by (rule mp)
next
  assume "select_str w src_table select_fields tr = (Inr sel, tr')
        \<and> raises w tr' (SqlFetchSql (ce_sql sel src_table
                          (filter_str (from_date self) date_fields))) = None"
  then have s: "select_str w src_table select_fields tr = (Inr sel, tr')"
    and r: "raises w tr' (SqlFetchSql (ce_sql sel src_table
                          (filter_str (from_date self) date_fields))) = None"
    by simp_all
  have m: "written_row (meta_values self source_system_cd)
             = (\<lambda>row. map normalize row @ meta_values self source_system_cd)"
    by (rule ext) (simp add: written_row_def)
  show "prefix (tr' @ [SqlFetchSql (ce_sql sel src_table
                          (filter_str (from_date self) date_fields)),
                       WriteTempFile
                         (''temp/'' @ str_replace tgt_table (CHR ''.'') (CHR ''-'') @ ''.txt'')
                         gzip delimiter
                         (map (\<lambda>row. map normalize row @ meta_values self source_system_cd)
                            (src_rows w tr' (ce_sql sel src_table
                               (filter_str (from_date self) date_fields))))])
          (snd (source_to_s3 w self src_table tgt_table s3_bucket s3_key select_fields
                  date_fields delimiter gzip source_system_cd tr))"
    using source_to_s3_rows [OF s r, of tgt_table gzip delimiter source_system_cd s3_bucket s3_key]
    unfolding m .
qed

theorem normalize_scalar_witness:
  "(\<forall>b. PyStr [CHR ''a'', CHR 0x09, CHR ''b'', CHR 0x0A, CHR 0x0D, CHR ''c'', CHR 0x0B] \<noteq> PyBool b)
   \<and> normalize (PyStr [CHR ''a'', CHR 0x09, CHR ''b'', CHR 0x0A, CHR 0x0D, CHR ''c'', CHR 0x0B])
       = PyStr ''a b  c ''
   \<and> select_str
        ((quiet_world [] True)
           \<lparr>src_rows := (\<lambda>tr q. [[PyBool True, PyStr [CHR ''a'', CHR 0x09, CHR ''b''], PyInt 7]])\<rparr>)
        ''dbo.orders'' None [] = (Inr ''*'', [])
   \<and> raises
        ((quiet_world [] True)
           \<lparr>src_rows := (\<lambda>tr q. [[PyBool True, PyStr [CHR ''a'', CHR 0x09, CHR ''b''], PyInt 7]])\<rparr>)
        [] (SqlFetchSql (ce_sql ''*'' ''dbo.orders'' (filter_str (from_date example_self) None)))
       = None
   \<and> prefix
        [SqlFetchSql ''select * from dbo.orders with (nolock) '',
         WriteTempFile ''temp/stage-orders.txt'' True [CHR 0x09]
           [[PyInt 1, PyStr ''a b'', PyStr ''7'', PyStr '''', PyStr ''2020-11-12 13:14:15'',
             PyStr ''2020-11-12 13:14:15'', PyInt 1605186855]]]
        (snd (source_to_s3
                ((quiet_world [] True)
                   \<lparr>src_rows :=
                      (\<lambda>tr q. [[PyBool True, PyStr [CHR ''a'', CHR 0x09, CHR ''b''], PyInt 7]])\<rparr>)
                example_self ''dbo.orders'' ''stage.orders'' None None None None [CHR 0x09]
                True None []))"
  using normalize_scalar
    [of "PyStr [CHR ''a'', CHR 0x09, CHR ''b'', CHR 0x0A, CHR 0x0D, CHR ''c'', CHR 0x0B]"
      _ _
      "(quiet_world [] True)
         \<lparr>src_rows := (\<lambda>tr q. [[PyBool True, PyStr [CHR ''a'', CHR 0x09, CHR ''b''], PyInt 7]])\<rparr>"
      "''dbo.orders''" None "[]" "''*''" "[]" example_self None "''stage.orders''" True
      "[CHR 0x09]" None None None]
  by (simp add: select_str_def io_return_def quiet_world_def example_self_def ce_sql_def
        filter_str_def str_replace_def meta_values_def strftime_second_def strftime_minute_def
        zero_pad_eval normalize_def str_int_def str_nat.simps digit_char_def)

subsection \<open>The filter of the extraction query\<close>


lemma join_or_any_newer:
  "join '' or '' (map (\<lambda>date. date @ '' > '' @ [CHR 0x27] @ v @ [CHR 0x27]) (d # ds))
     = render (any_newer d ds v)"
  by (induction ds arbitrary: d) simp_all

lemma satisfies_any_newer:
  "satisfies gt (any_newer d ds v) \<longleftrightarrow> (\<exists>c \<in> set (d # ds). gt c v)"
  by (induction ds arbitrary: d) auto

lemma later_minute: "later t fd \<Longrightarrow> later t (fd\<lparr>second := 0\<rparr>)"
  by (auto simp add: later_def)

lemma strftime_minute_second:
  "strftime_minute (fd\<lparr>second := s\<rparr>) = strftime_minute fd"
  by (simp add: strftime_minute_def)

text \<open>
  C8, as stated, fails: the literal of the comparison is \<open>from_date\<close> printed to the minute.
  For the watermark 2020-11-12 13:14:15 the filter compares with \<open>'2020-11-12 13:14'\<close> and is
  the very filter of the watermark 2020-11-12 13:14:00; a row dated 2020-11-12 13:14:10 is
  newer than the latter and not newer than the former, so the filter is not the comparison
  with \<open>from_date\<close>: it also admits the rows of the watermark's own minute.
\<close>

theorem filter_drops_seconds:
  "filter_str
      (Some \<lparr>year = 2020, month = 11, day = 12, hour = 13, minute = 14, second = 15\<rparr>)
      (Some [''created''])
     = ''where created > '' @ [CHR 0x27] @ ''2020-11-12 13:14'' @ [CHR 0x27]
   \<and> filter_str
       (Some \<lparr>year = 2020, month = 11, day = 12, hour = 13, minute = 14, second = 15\<rparr>)
       (Some [''created''])
     = filter_str
         (Some \<lparr>year = 2020, month = 11, day = 12, hour = 13, minute = 14, second = 0\<rparr>)
         (Some [''created''])
   \<and> later \<lparr>year = 2020, month = 11, day = 12, hour = 13, minute = 14, second = 10\<rparr>
        \<lparr>year = 2020, month = 11, day = 12, hour = 13, minute = 14, second = 0\<rparr>
   \<and> \<not> later \<lparr>year = 2020, month = 11, day = 12, hour = 13, minute = 14, second = 10\<rparr>
          \<lparr>year = 2020, month = 11, day = 12, hour = 13, minute = 14, second = 15\<rparr>"
  by (simp add: filter_str_def strftime_minute_def zero_pad_eval later_def)

text \<open>
  C8, amended. With a non-empty list of date fields and a \<open>from_date\<close>, the extraction query
  is \<open>select ... with (nolock) where\<close> followed by the OR, over all the date fields, of the
  comparison \<open>field > 'from_date'\<close>, where the literal is \<open>from_date\<close> printed to the minute
  (the literal of \<open>from_date\<close> with its seconds set to 0): a row satisfies the filter exactly
  when one of its date fields is greater than that literal, so it qualifies if one of its
  date fields is newer than the watermark. When the date fields are \<open>None\<close> or empty, or
  \<open>from_date\<close> is \<open>None\<close>, the filter is empty and the query ends after \<open>with (nolock)\<close>.
  In both cases this query is the one \<open>source_to_s3\<close> passes to \<open>fetch_sql\<close>, once the list
  of selected columns is known.
\<close>

theorem filter_is_disjunction:
  "(date_fields = Some (d # ds) \<and> from_date self = Some fd \<longrightarrow>
      filter_str (from_date self) date_fields
        = ''where '' @ render (any_newer d ds (strftime_minute fd))
      \<and> ce_sql sel src_table (filter_str (from_date self) date_fields)
          = ''select '' @ sel @ '' from '' @ src_table @ '' with (nolock) where ''
            @ render (any_newer d ds (strftime_minute fd))
      \<and> (satisfies gt (any_newer d ds (strftime_minute fd))
           \<longleftrightarrow> (\<exists>c \<in> set (d # ds). gt c (strftime_minute fd)))
      \<and> strftime_minute fd = strftime_minute (fd\<lparr>second := 0\<rparr>)
      \<and> (later t fd \<longrightarrow> later t (fd\<lparr>second := 0\<rparr>)))
   \<and> (date_fields = None \<or> date_fields = Some [] \<or> from_date self = None \<longrightarrow>
        filter_str (from_date self) date_fields = ''''
        \<and> ce_sql sel src_table (filter_str (from_date self) date_fields)
            = ''select '' @ sel @ '' from '' @ src_table @ '' with (nolock) '')
   \<and> (select_str w src_table select_fields tr = (Inr sel, tr') \<longrightarrow>
        prefix (tr' @ [SqlFetchSql (ce_sql sel src_table
                          (filter_str (from_date self) date_fields))])
          (snd (source_to_s3 w self src_table tgt_table s3_bucket s3_key select_fields
                  date_fields delimiter gzip source_system_cd tr)))"
proof (intro conjI impI)
  assume a: "date_fields = Some (d # ds) \<and> from_date self = Some fd"
  then show f: "filter_str (from_date self) date_fields
        = ''where '' @ render (any_newer d ds (strftime_minute fd))"
    using join_or_any_newer [of "strftime_minute fd" d ds] by (simp add: filter_str_def)
  show "ce_sql sel src_table (filter_str (from_date self) date_fields)
          = ''select '' @ sel @ '' from '' @ src_table @ '' with (nolock) where ''
            @ render (any_newer d ds (strftime_minute fd))"
    unfolding f by (simp add: ce_sql_def)
  show "satisfies gt (any_newer d ds (strftime_minute fd))
           \<longleftrightarrow> (\<exists>c \<in> set (d # ds). gt c (strftime_minute fd))"
    by (rule satisfies_any_newer)
  show "strftime_minute fd = strftime_minute (fd\<lparr>second := 0\<rparr>)"
    by (simp add: strftime_minute_second)
next
  assume "later t fd"
  then show "later t (fd\<lparr>second := 0\<rparr>)" by (rule later_minute)
next
  assume b: "date_fields = None \<or> date_fields = Some [] \<or> from_date self = None"
  then show e: "filter_str (from_date self) date_fields = ''''"
    by (auto simp add: filter_str_def split: option.splits list.splits)
  show "ce_sql sel src_table (filter_str (from_date self) date_fields)
            = ''select '' @ sel @ '' from '' @ src_table @ '' with (nolock) ''"
    unfolding e by (simp add: ce_sql_def)
next
  assume "select_str w src_table select_fields tr = (Inr sel, tr')"
  then show "prefix (tr' @ [SqlFetchSql (ce_sql sel src_table
                          (filter_str (from_date self) date_fields))])
          (snd (source_to_s3 w self src_table tgt_table s3_bucket s3_key select_fields
                  date_fields delimiter gzip source_system_cd tr))"
    by (rule source_to_s3_query)
qed


theorem filter_is_disjunction_witness:
  "from_date (example_self\<lparr>from_date :=
       Some \<lparr>year = 2020, month = 11, day = 12, hour = 13, minute = 14, second = 15\<rparr>\<rparr>)
     = Some \<lparr>year = 2020, month = 11, day = 12, hour = 13, minute = 14, second = 15\<rparr>
   \<and> ce_sql ''*'' ''dbo.orders''
        (filter_str
           (Some \<lparr>year = 2020, month = 11, day = 12, hour = 13, minute = 14, second = 15\<rparr>)
           (Some [''created'', ''updated'']))
       = ''select * from dbo.orders with (nolock) where created > '' @ [CHR 0x27]
         @ ''2020-11-12 13:14'' @ [CHR 0x27] @ '' or updated > '' @ [CHR 0x27]
         @ ''2020-11-12 13:14'' @ [CHR 0x27]
   \<and> later \<lparr>year = 2020, month = 11, day = 12, hour = 13, minute = 14, second = 20\<rparr>
        \<lparr>year = 2020, month = 11, day = 12, hour = 13, minute = 14, second = 15\<rparr>
   \<and> later \<lparr>year = 2020, month = 11, day = 12, hour = 13, minute = 14, second = 20\<rparr>
        \<lparr>year = 2020, month = 11, day = 12, hour = 13, minute = 14, second = 0\<rparr>
   \<and> select_str (quiet_world [] True) ''dbo.orders'' None [] = (Inr ''*'', [])
   \<and> prefix
        [SqlFetchSql
           (''select * from dbo.orders with (nolock) where created > '' @ [CHR 0x27]
            @ ''2020-11-12 13:14'' @ [CHR 0x27] @ '' or updated > '' @ [CHR 0x27]
            @ ''2020-11-12 13:14'' @ [CHR 0x27])]
        (snd (source_to_s3 (quiet_world [] True)
                (example_self\<lparr>from_date :=
                   Some \<lparr>year = 2020, month = 11, day = 12, hour = 13, minute = 14,
                          second = 15\<rparr>\<rparr>)
                ''dbo.orders'' ''stage.orders'' None None None
                (Some [''created'', ''updated'']) [CHR 0x09] True None []))
   \<and> from_date example_self = None
   \<and> filter_str (from_date example_self) (Some [''created'', ''updated'']) = ''''
   \<and> ce_sql ''*'' ''dbo.orders''
        (filter_str (from_date example_self) (Some [''created'', ''updated'']))
       = ''select * from dbo.orders with (nolock) ''
   \<and> filter_str
        (Some \<lparr>year = 2020, month = 11, day = 12, hour = 13, minute = 14, second = 15\<rparr>) None
       = ''''"
  using
    filter_is_disjunction
      [where date_fields = "Some [''created'', ''updated'']" and d = "''created''"
         and ds = "[''updated'']"
         and self = "example_self\<lparr>from_date :=
           Some \<lparr>year = 2020, month = 11, day = 12, hour = 13, minute = 14, second = 15\<rparr>\<rparr>"
         and fd = "\<lparr>year = 2020, month = 11, day = 12, hour = 13, minute = 14, second = 15\<rparr>"
         and t = "\<lparr>year = 2020, month = 11, day = 12, hour = 13, minute = 14, second = 20\<rparr>"
         and gt = "\<lambda>c v. True"
         and sel = "''*''" and src_table = "''dbo.orders''" and w = "quiet_world [] True"
         and select_fields = None and tr = "[]" and tr' = "[]"
         and tgt_table = "''stage.orders''" and s3_bucket = None and s3_key = None
         and delimiter = "[CHR 0x09]" and gzip = True and source_system_cd = None]
    filter_is_disjunction
      [where date_fields = "Some [''created'', ''updated'']" and d = "''created''"
         and ds = "[''updated'']" and self = example_self
         and fd = "\<lparr>year = 2020, month = 11, day = 12, hour = 13, minute = 14, second = 15\<rparr>"
         and t = "\<lparr>year = 2020, month = 11, day = 12, hour = 13, minute = 14, second = 20\<rparr>"
         and gt = "\<lambda>c v. True"
         and sel = "''*''" and src_table = "''dbo.orders''" and w = "quiet_world [] True"
         and select_fields = None and tr = "[]" and tr' = "[]"
         and tgt_table = "''stage.orders''" and s3_bucket = None and s3_key = None
         and delimiter = "[CHR 0x09]" and gzip = True and source_system_cd = None]
  by (simp add: filter_str_def ce_sql_def strftime_minute_def zero_pad_eval later_def
        example_self_def select_str_def io_return_def)

subsection \<open>The load statement\<close>

text \<open>
  The scanner is evaluated on the templates by the simplifier; it need not look into the
  arguments of the scanner between two steps, and reverses the output with \<open>fold\<close>.
\<close>

lemma scan_cong: "py_format_scan sb st out t = py_format_scan sb st out t"
  by (rule refl)

lemma rev_Cons_fold: "rev (x # xs) = fold Cons xs [x]"
  by (simp add: rev_conv_fold)

lemma fold_Cons_rev_append: "fold Cons (rev v @ xs) ys = fold Cons xs (v @ ys)"
  by (simp add: fold_Cons_rev)

lemma sql_full_csv:
  "s3_to_redshift_sql self tgt_table s3_path False True gzip manifest maxerror
       key_fields delimiter remove_quotes =
     Inr ((''delete from '' @
         tgt_table @
         '';\<newline>'' @
         ''\<newline>'' @
         ''                COPY '' @
         tgt_table @
         '' from '' @ [CHR 0x27] @
         s3_path @
         [CHR 0x27] @ ''\<newline>'' @
         ''                CREDENTIALS 'aws_access_key_id='' @
         aws_access_key self @
         '';aws_secret_access_key='' @
         aws_secret_key self @
         [CHR 0x27] @ ''\<newline>'' @
         ''                dateformat 'YYYY-MM-DD'\<newline>'' @
         ''                '')
          @ null_as_none @
          (''\<newline>'' @
         ''                truncatecolumns\<newline>'' @
         ''                maxerror '' @
         str_int maxerror @
         ''\<newline>'' @
         ''                '' @
         opt_str gzip manifest remove_quotes @
         '';\<newline>''))"
  by (simp add: s3_to_redshift_sql_def pre_sql1_def cp_sql_def upd_sql_def subs_def
        py_format_def null_as_none_def null_string_def rev_Cons_fold fold_Cons_rev_append fold_Cons_rev
        del: rev.simps(2) cong: scan_cong)

lemma sql_full_delimited:
  "s3_to_redshift_sql self tgt_table s3_path False False gzip manifest maxerror
       key_fields delimiter remove_quotes =
     Inr ((''delete from '' @
         tgt_table @
         '';\<newline>'' @
         ''\<newline>'' @
         ''                COPY '' @
         tgt_table @
         '' from '' @ [CHR 0x27] @
         s3_path @
         [CHR 0x27] @ ''\<newline>'' @
         ''                CREDENTIALS 'aws_access_key_id='' @
         aws_access_key self @
         '';aws_secret_access_key='' @
         aws_secret_key self @
         [CHR 0x27] @ ''\<newline>'' @
         ''                delimiter '' @ [CHR 0x27] @
         delimiter @
         [CHR 0x27] @ ''\<newline>'' @
         ''                dateformat 'YYYY-MM-DD'\<newline>'' @
         ''                '')
          @ null_as_none @
          (''\<newline>'' @
         ''                truncatecolumns\<newline>'' @
         ''                maxerror '' @
         str_int maxerror @
         ''\<newline>'' @
         ''                '' @
         opt_str gzip manifest remove_quotes @
         '';\<newline>''))"
  by (simp add: s3_to_redshift_sql_def pre_sql1_def cp_sql_def upd_sql_def subs_def
        py_format_def null_as_none_def null_string_def rev_Cons_fold fold_Cons_rev_append fold_Cons_rev
        del: rev.simps(2) cong: scan_cong)

lemma sql_incremental_csv:
  assumes "key_fields = Some (k # ks)"
  shows "s3_to_redshift_sql self tgt_table s3_path True True gzip manifest maxerror
       key_fields delimiter remove_quotes =
     Inr ((''\<newline>'' @
         ''                drop table if exists tmp;\<newline>'' @
         ''                create temporary table tmp (like '' @
         tgt_table @
         '');\<newline>'' @
         ''\<newline>'' @
         ''                COPY tmp from '' @ [CHR 0x27] @
         s3_path @
         [CHR 0x27] @ ''\<newline>'' @
         ''                CREDENTIALS 'aws_access_key_id='' @
         aws_access_key self @
         '';aws_secret_access_key='' @
         aws_secret_key self @
         [CHR 0x27] @ ''\<newline>'' @
         ''                dateformat 'YYYY-MM-DD'\<newline>'' @
         ''                '')
          @ null_as_none @
          (''\<newline>'' @
         ''                truncatecolumns\<newline>'' @
         ''                maxerror '' @
         str_int maxerror @
         '' '' @
         opt_str gzip manifest remove_quotes @
         '';\<newline>'' @
         ''\<newline>'' @
         ''                delete\<newline>'' @
         ''                from '' @
         tgt_table @
         ''\<newline>'' @
         ''                where exists\<newline>'' @
         ''                  ( select 1\<newline>'' @
         ''                    from tmp\<newline>'' @
         ''                    where '' @
         upd_where True tgt_table key_fields @
         '');\<newline>'' @
         ''                insert into '' @
         tgt_table @
         ''\<newline>'' @
         ''                select * from tmp;\<newline>''))"
  using assms
  by (simp add: s3_to_redshift_sql_def pre_sql1_def cp_sql_def upd_sql_def subs_def
        py_format_def null_as_none_def null_string_def rev_Cons_fold fold_Cons_rev_append fold_Cons_rev
        del: rev.simps(2) cong: scan_cong)

lemma sql_incremental_delimited:
  assumes "key_fields = Some (k # ks)"
  shows "s3_to_redshift_sql self tgt_table s3_path True False gzip manifest maxerror
       key_fields delimiter remove_quotes =
     Inr ((''\<newline>'' @
         ''                drop table if exists tmp;\<newline>'' @
         ''                create temporary table tmp (like '' @
         tgt_table @
         '');\<newline>'' @
         ''\<newline>'' @
         ''                COPY tmp from '' @ [CHR 0x27] @
         s3_path @
         [CHR 0x27] @ ''\<newline>'' @
         ''                CREDENTIALS 'aws_access_key_id='' @
         aws_access_key self @
         '';aws_secret_access_key='' @
         aws_secret_key self @
         [CHR 0x27] @ ''\<newline>'' @
         ''                delimiter '' @ [CHR 0x27] @
         delimiter @
         [CHR 0x27] @ ''\<newline>'' @
         ''                dateformat 'YYYY-MM-DD'\<newline>'' @
         ''                '')
          @ null_as_none @
          (''\<newline>'' @
         ''                truncatecolumns\<newline>'' @
         ''                maxerror '' @
         str_int maxerror @
         '' '' @
         opt_str gzip manifest remove_quotes @
         '';\<newline>'' @
         ''\<newline>'' @
         ''                delete\<newline>'' @
         ''                from '' @
         tgt_table @
         ''\<newline>'' @
         ''                where exists\<newline>'' @
         ''                  ( select 1\<newline>'' @
         ''                    from tmp\<newline>'' @
         ''                    where '' @
         upd_where True tgt_table key_fields @
         '');\<newline>'' @
         ''                insert into '' @
         tgt_table @
         ''\<newline>'' @
         ''                select * from tmp;\<newline>''))"
  using assms
  by (simp add: s3_to_redshift_sql_def pre_sql1_def cp_sql_def upd_sql_def subs_def
        py_format_def null_as_none_def null_string_def rev_Cons_fold fold_Cons_rev_append fold_Cons_rev
        del: rev.simps(2) cong: scan_cong)

lemma sublist_middle: "sublist xs (ps @ xs @ ss)"
  unfolding sublist_def by blast

lemma has_null_clause:
  "r = Inr (a @ null_as_none @ b) \<Longrightarrow> \<exists>sql. r = Inr sql \<and> sublist null_as_none sql"
  by (auto intro: sublist_middle)

lemma normalize_None: "normalize PyNone = PyStr ''None''"
  by (simp add: normalize_def str_replace_def)

lemma normalize_None_text: "normalize (PyStr ''None'') = PyStr ''None''"
  by (simp add: normalize_def str_replace_def)

lemma null_clause:
  assumes "incremental \<longrightarrow> key_fields \<noteq> None \<and> key_fields \<noteq> Some []"
  shows "\<exists>sql. s3_to_redshift_sql self tgt_table s3_path incremental csv_fmt gzip manifest
                 maxerror key_fields delimiter remove_quotes = Inr sql
               \<and> sublist null_as_none sql"
proof (cases incremental)
  case False
  show ?thesis
  proof (cases csv_fmt)
    case True
    from False True have v: "incremental = False" "csv_fmt = True" by simp_all
    show ?thesis unfolding v by (rule has_null_clause [OF sql_full_csv])
  next
    case no_csv: False
    from False no_csv have v: "incremental = False" "csv_fmt = False" by simp_all
    show ?thesis unfolding v by (rule has_null_clause [OF sql_full_delimited])
  qed
next
  case True
  with assms obtain k ks where k: "key_fields = Some (k # ks)"
    by (cases key_fields) (auto simp add: neq_Nil_conv)
  show ?thesis
  proof (cases csv_fmt)
    case csv: True
    from True csv have v: "incremental = True" "csv_fmt = True" by simp_all
    show ?thesis unfolding v by (rule has_null_clause [OF sql_incremental_csv [OF k]])
  next
    case False
    from True False have v: "incremental = True" "csv_fmt = False" by simp_all
    show ?thesis unfolding v by (rule has_null_clause [OF sql_incremental_delimited [OF k]])
  qed
qed

text \<open>
  C10. \<open>None\<close> is normalized to the four characters \<open>None\<close>, exactly as the text \<open>'None'\<close>
  is, and the rows \<open>source_to_s3\<close> writes to the temporary file are the normalized rows, so
  both are staged as \<open>None\<close>. Whenever \<open>s3_to_redshift\<close> gets past its check of the
  parameters (the load is not incremental, or key fields are given) the statement it
  builds, in each of the four branches, contains the clause \<open>NULL AS 'None'\<close>, and this is
  the statement it executes once the connection is open. A \<open>COPY\<close> with that clause loads
  a field staged as \<open>None\<close> as \<open>NULL\<close>: a staged \<open>NULL\<close> and a staged text \<open>None\<close> alike.
\<close>

theorem null_sentinel:
  "normalize PyNone = PyStr null_string
   \<and> normalize (PyStr ''None'') = PyStr null_string
   \<and> null_string = ''None''
   \<and> written_row m [PyNone, PyStr ''None''] = [PyStr ''None'', PyStr ''None''] @ m
   \<and> (select_str w src_table select_fields tr = (Inr sel, tr')
        \<and> raises w tr' (SqlFetchSql (ce_sql sel src_table
                          (filter_str (from_date self) date_fields))) = None \<longrightarrow>
        prefix (tr' @ [SqlFetchSql (ce_sql sel src_table
                          (filter_str (from_date self) date_fields)),
                       WriteTempFile
                         (''temp/'' @ str_replace tgt_table (CHR ''.'') (CHR ''-'') @ ''.txt'')
                         gzip delimiter
                         (map (\<lambda>row. map normalize row @ meta_values self source_system_cd)
                            (src_rows w tr' (ce_sql sel src_table
                               (filter_str (from_date self) date_fields))))])
          (snd (source_to_s3 w self src_table tgt_table s3_bucket s3_key select_fields
                  date_fields delimiter gzip source_system_cd tr)))
   \<and> ((incremental \<longrightarrow> key_fields \<noteq> None \<and> key_fields \<noteq> Some []) \<longrightarrow>
        (\<exists>sql. s3_to_redshift_sql self tgt_table s3_path incremental csv_fmt gzip manifest
                 maxerror key_fields delimiter remove_quotes = Inr sql
               \<and> sublist null_as_none sql
               \<and> (raises w tr PgConn = None \<and> raises w (tr @ [PgConn]) PgBatchOpen = None \<longrightarrow>
                    prefix (tr @ [PgConn, PgBatchOpen, PgExecSql sql])
                      (snd (s3_to_redshift w self tgt_table s3_path incremental csv_fmt gzip
                              manifest maxerror key_fields delimiter remove_quotes tr)))))
   \<and> null_as_none = ''NULL AS '' @ [CHR 0x27] @ ''None'' @ [CHR 0x27]
   \<and> copy_reads null_string (py_str (normalize PyNone)) = None
   \<and> copy_reads null_string (py_str (normalize (PyStr ''None''))) = None"
proof (intro conjI impI)
  show "normalize PyNone = PyStr null_string"
    by (simp add: normalize_None null_string_def)
  show "normalize (PyStr ''None'') = PyStr null_string"
    by (simp add: normalize_None_text null_string_def)
  show "null_string = ''None''"
    by (rule null_string_def)
  show "written_row m [PyNone, PyStr ''None''] = [PyStr ''None'', PyStr ''None''] @ m"
    by (simp add: written_row_def normalize_None normalize_None_text)
  show "null_as_none = ''NULL AS '' @ [CHR 0x27] @ ''None'' @ [CHR 0x27]"
    by (simp add: null_as_none_def null_string_def)
  show "copy_reads null_string (py_str (normalize PyNone)) = None"
    by (simp add: copy_reads_def normalize_None null_string_def)
  show "copy_reads null_string (py_str (normalize (PyStr ''None''))) = None"
    by (simp add: copy_reads_def normalize_None_text null_string_def)
next
  assume a: "select_str w src_table select_fields tr = (Inr sel, tr')
        \<and> raises w tr' (SqlFetchSql (ce_sql sel src_table
                          (filter_str (from_date self) date_fields))) = None"
  then have s: "select_str w src_table select_fields tr = (Inr sel, tr')"
    and r: "raises w tr' (SqlFetchSql (ce_sql sel src_table
                          (filter_str (from_date self) date_fields))) = None"
    by simp_all
  have m: "written_row (meta_values self source_system_cd)
             = (\<lambda>row. map normalize row @ meta_values self source_system_cd)"
    by (rule ext) (simp add: written_row_def)
  show "prefix (tr' @ [SqlFetchSql (ce_sql sel src_table
                          (filter_str (from_date self) date_fields)),
                       WriteTempFile
                         (''temp/'' @ str_replace tgt_table (CHR ''.'') (CHR ''-'') @ ''.txt'')
                         gzip delimiter
                         (map (\<lambda>row. map normalize row @ meta_values self source_system_cd)
                            (src_rows w tr' (ce_sql sel src_table
                               (filter_str (from_date self) date_fields))))])
          (snd (source_to_s3 w self src_table tgt_table s3_bucket s3_key select_fields
                  date_fields delimiter gzip source_system_cd tr))"
    using source_to_s3_rows [OF s r, of tgt_table gzip delimiter source_system_cd s3_bucket s3_key]
    unfolding m .
next
  assume keys: "incremental \<longrightarrow> key_fields \<noteq> None \<and> key_fields \<noteq> Some []"
  then obtain sql where sql: "s3_to_redshift_sql self tgt_table s3_path incremental csv_fmt
      gzip manifest maxerror key_fields delimiter remove_quotes = Inr sql"
    and sub: "sublist null_as_none sql"
    using null_clause by blast
  have "raises w tr PgConn = None \<and> raises w (tr @ [PgConn]) PgBatchOpen = None \<longrightarrow>
          prefix (tr @ [PgConn, PgBatchOpen, PgExecSql sql])
            (snd (s3_to_redshift w self tgt_table s3_path incremental csv_fmt gzip
                    manifest maxerror key_fields delimiter remove_quotes tr))"
    using s3_to_redshift_statement [OF sql] by blast
  with sql sub
  show "\<exists>sql. s3_to_redshift_sql self tgt_table s3_path incremental csv_fmt gzip manifest
                 maxerror key_fields delimiter remove_quotes = Inr sql
               \<and> sublist null_as_none sql
               \<and> (raises w tr PgConn = None \<and> raises w (tr @ [PgConn]) PgBatchOpen = None \<longrightarrow>
                    prefix (tr @ [PgConn, PgBatchOpen, PgExecSql sql])
                      (snd (s3_to_redshift w self tgt_table s3_path incremental csv_fmt gzip
                              manifest maxerror key_fields delimiter remove_quotes tr)))"
    by blast
qed


theorem null_sentinel_witness:
  "select_str ((quiet_world [] True)\<lparr>src_rows := (\<lambda>tr q. [[PyNone, PyStr ''None'']])\<rparr>)
      ''dbo.orders'' None [] = (Inr ''*'', [])
   \<and> raises ((quiet_world [] True)\<lparr>src_rows := (\<lambda>tr q. [[PyNone, PyStr ''None'']])\<rparr>)
        [] (SqlFetchSql (ce_sql ''*'' ''dbo.orders'' (filter_str (from_date example_self) None)))
       = None
   \<and> prefix
        [SqlFetchSql ''select * from dbo.orders with (nolock) '',
         WriteTempFile ''temp/stage-orders.txt'' True [CHR 0x09]
           [[PyStr ''None'', PyStr ''None'', PyStr '''', PyStr ''2020-11-12 13:14:15'',
             PyStr ''2020-11-12 13:14:15'', PyInt 1605186855]]]
        (snd (source_to_s3
                ((quiet_world [] True)\<lparr>src_rows := (\<lambda>tr q. [[PyNone, PyStr ''None'']])\<rparr>)
                example_self ''dbo.orders'' ''stage.orders'' None None None None [CHR 0x09]
                True None []))
   \<and> raises ((quiet_world [] True)\<lparr>src_rows := (\<lambda>tr q. [[PyNone, PyStr ''None'']])\<rparr>)
        [] PgConn = None
   \<and> raises ((quiet_world [] True)\<lparr>src_rows := (\<lambda>tr q. [[PyNone, PyStr ''None'']])\<rparr>)
        [PgConn] PgBatchOpen = None
   \<and> (\<exists>sql. s3_to_redshift_sql example_self ''stage.orders''
               ''s3://tmp-bucket/rsqoop/dev/stage-orders/output.tsv''
               True False True False 0 (Some [''order_id'']) [CHR 0x09] False = Inr sql
          \<and> sublist null_as_none sql
          \<and> prefix [PgConn, PgBatchOpen, PgExecSql sql]
              (snd (s3_to_redshift
                      ((quiet_world [] True)
                         \<lparr>src_rows := (\<lambda>tr q. [[PyNone, PyStr ''None'']])\<rparr>)
                      example_self ''stage.orders''
                      ''s3://tmp-bucket/rsqoop/dev/stage-orders/output.tsv''
                      True False True False 0 (Some [''order_id'']) [CHR 0x09] False [])))"
  using null_sentinel
    [where w = "(quiet_world [] True)\<lparr>src_rows := (\<lambda>tr q. [[PyNone, PyStr ''None'']])\<rparr>"
       and m = "[]" and src_table = "''dbo.orders''" and select_fields = None and tr = "[]"
       and sel = "''*''" and tr' = "[]" and self = example_self and date_fields = None
       and tgt_table = "''stage.orders''" and gzip = True and delimiter = "[CHR 0x09]"
       and source_system_cd = None and s3_bucket = None and s3_key = None
       and incremental = True and key_fields = "Some [''order_id'']"
       and s3_path = "''s3://tmp-bucket/rsqoop/dev/stage-orders/output.tsv''"
       and csv_fmt = False and manifest = False and maxerror = 0 and remove_quotes = False]
  by (simp add: select_str_def io_return_def quiet_world_def example_self_def ce_sql_def
        filter_str_def str_replace_def meta_values_def strftime_second_def strftime_minute_def
        zero_pad_def normalize_def str_int_def str_nat.simps digit_char_def null_string_def)

subsection \<open>The pipeline\<close>

lemma config_error_first:
  assumes "key_fields = None \<or> key_fields = Some []"
  shows "s3_to_redshift w self tgt_table s3_path True csv_fmt gzip manifest maxerror
           key_fields delimiter remove_quotes tr
         = (Inl (PyException ''incremental loads require key fields''), tr)"
  using assms
  by (auto simp add: s3_to_redshift_def s3_to_redshift_sql_def io_bind_def io_lift_def)

text \<open>
  C1, amended. With \<open>incremental\<close> true and \<open>key_fields\<close> \<open>None\<close> or empty,
  \<open>s3_to_redshift\<close> raises the configuration error before it makes any call: no
  connection, no statement, no grant. \<open>stage_to_redshift\<close> reaches that check in its fourth
  step only: its calls are those of the clone, the source count and the extraction with
  its upload, and it ends with the error one of them raised or else with the configuration
  error; no load statement, no grant and no reconciliation follow.
\<close>

theorem config_error_at_load_step:
  "key_fields = None \<or> key_fields = Some [] \<longrightarrow>
     s3_to_redshift w self tgt_table s3_path True csv_fmt gzip manifest maxerror
         key_fields delimiter remove_quotes tr
       = (Inl (PyException ''incremental loads require key fields''), tr)
     \<and> stage_to_redshift w self src_table tgt_table True gzip date_fields delimiter
           remove_quotes key_fields select_fields source_system_cd tr
         = (case io_bind (clone_staging_table w src_table tgt_table select_fields True) (\<lambda>_.
                  io_bind (get_src_count w src_table) (\<lambda>_.
                  source_to_s3 w self src_table tgt_table None None select_fields date_fields
                    delimiter gzip source_system_cd)) tr of
              (Inl e, tr') \<Rightarrow> (Inl e, tr')
            | (Inr s3_path', tr') \<Rightarrow>
                (Inl (PyException ''incremental loads require key fields''), tr'))"
proof
  assume k: "key_fields = None \<or> key_fields = Some []"
  note c = config_error_first [OF k]
  show "s3_to_redshift w self tgt_table s3_path True csv_fmt gzip manifest maxerror
         key_fields delimiter remove_quotes tr
       = (Inl (PyException ''incremental loads require key fields''), tr)
     \<and> stage_to_redshift w self src_table tgt_table True gzip date_fields delimiter
           remove_quotes key_fields select_fields source_system_cd tr
         = (case io_bind (clone_staging_table w src_table tgt_table select_fields True) (\<lambda>_.
                  io_bind (get_src_count w src_table) (\<lambda>_.
                  source_to_s3 w self src_table tgt_table None None select_fields date_fields
                    delimiter gzip source_system_cd)) tr of
              (Inl e, tr') \<Rightarrow> (Inl e, tr')
            | (Inr s3_path', tr') \<Rightarrow>
                (Inl (PyException ''incremental loads require key fields''), tr'))"
    by (simp add: c stage_to_redshift_def io_bind_def split: prod.splits sum.splits)
qed

lemmas io_defs =
  io_bind_def io_return_def io_raise_def io_lift_def io_try_def ask_def perform_def

lemmas run_defs =
  stage_to_redshift_def clone_staging_table_def get_source_table_schema_def
  get_src_count_def source_to_s3_def select_str_def s3_to_redshift_def
  grant_std_access_def check_tgt_count_def get_fields_def schema_and_table_def
  filter_str_def meta_values_def str_replace_def

lemmas translation_defs =
  create_sql_def create_row_def target_data_type_def target_column_name_def lower_def
  lower_char_def rs_date_types_def rs_char_types_def rs_smallint_types_def
  rs_int_types_def rs_bigint_types_def rs_num_types_def rs_other_types_def
  rs_reserved_names_def

text \<open>
  C1, as stated, fails: in a run of \<open>stage_to_redshift\<close> with \<open>incremental=True\<close> and
  \<open>key_fields=None\<close> the configuration error is raised after the catalog query, the
  creation of the target table, the source count, the extraction and the upload.
\<close>

theorem config_error_after_staging:
  "stage_to_redshift
     (quiet_world [\<lparr>column_name = ''order_id'', data_type = ''int'',
                     character_maximum_length = None, numeric_precision = Some 10,
                     numeric_scale = Some 0\<rparr>] False)
     example_self ''dbo.orders'' ''stage.orders'' True True None [CHR 0x09] False None None
     None []
   = (Inl (PyException ''incremental loads require key fields''),
      [SqlFetchSqlAll (schema_sql ''dbo'' ''orders''),
       PgTableExists ''stage.orders'',
       PgExecSql (drop_sql ''stage.orders''
                  @ ''create table stage.orders (\<newline>''
                  @ ''\"order_id\" integer,\<newline>''
                  @ ''etl_source_system_cd varchar(50),''
                  @ ''\<newline>etl_row_create_dts timestamp,''
                  @ ''\<newline>etl_row_update_dts timestamp,''
                  @ ''\<newline>etl_run_id bigint );\<newline>''),
       PgBatchCommit,
       SqlFetchSqlAll (count_sql ''dbo.orders''),
       SqlFetchSql (ce_sql ''*'' ''dbo.orders'' ''''),
       WriteTempFile ''temp/stage-orders.txt'' True [CHR 0x09] [],
       PgConn,
       PgBatchOpen,
       PgFetchSql ''select 1'',
       SqlFetchSql ''select 1'',
       S3PutFile ''tmp-bucket'' ''rsqoop/dev/stage-orders/output.tsv''
         ''temp/stage-orders.txt'',
       PathExists ''temp/stage-orders.txt'',
       RemoveFile ''temp/stage-orders.txt''])"
  by (simp add: run_defs io_defs quiet_world_def example_self_def translation_defs
        s3_to_redshift_sql_def Let_def)

theorem config_error_at_load_step_witness:
  "s3_to_redshift (quiet_world [] True) example_self ''stage.orders''
     ''s3://tmp-bucket/rsqoop/dev/stage-orders/output.tsv'' True False True False 0 None
     [CHR 0x09] False []
   = (Inl (PyException ''incremental loads require key fields''), [])"
  using config_error_at_load_step [where key_fields = None and w = "quiet_world [] True"
          and self = example_self and tr = "[]"]
  by simp

text \<open>
  C3. The translation is not total: for a character type other than \<open>timestamp\<close> whose
  declared length is \<open>None\<close>, \<open>int(field[2])\<close> raises \<open>TypeError\<close> before the
  \<open>varchar(2000)\<close> default of line 233 is reached, and \<open>clone_staging_table\<close> ends with that
  exception after its catalog query and existence check. Evaluated here at the column
  \<open>('notes', 'varchar', None, None, None)\<close>.
\<close>

theorem absent_length_raises:
  "target_data_type \<lparr>column_name = ''notes'', data_type = ''varchar'',
       character_maximum_length = None, numeric_precision = None, numeric_scale = None\<rparr>
     = Inl TypeError
   \<and> clone_staging_table
         (quiet_world [\<lparr>column_name = ''notes'', data_type = ''varchar'',
                         character_maximum_length = None, numeric_precision = None,
                         numeric_scale = None\<rparr>] False)
         ''dbo.memo'' ''stage.memo'' None False []
       = (Inl TypeError,
          [SqlFetchSqlAll (schema_sql ''dbo'' ''memo''), PgTableExists ''stage.memo''])"
  by (simp add: run_defs io_defs quiet_world_def translation_defs char_size_def)

text \<open>
  C2. For a source table that the catalog does not know, \<open>clone_staging_table\<close> returns
  \<open>(None, None)\<close> without raising, but \<open>stage_to_redshift\<close> does not stop there: it goes on
  to count the rows of the source, where the run ends with the exception of the driver; and
  in a world where no call raises it extracts, uploads, runs the load statement and the
  grants, and reconciles the counts.
\<close>

theorem missing_source_not_skipped:
  "clone_staging_table (missing_table_world ''dbo.missing'') ''dbo.missing''
       ''stage.missing'' None False []
     = (Inr (None, None),
        [SqlFetchSqlAll (schema_sql ''dbo'' ''missing''), PgTableExists ''stage.missing''])
   \<and> stage_to_redshift (missing_table_world ''dbo.missing'') example_self ''dbo.missing''
         ''stage.missing'' False True None [CHR 0x09] False None None None []
       = (Inl (DriverError ''Invalid object name''),
          [SqlFetchSqlAll (schema_sql ''dbo'' ''missing''), PgTableExists ''stage.missing'',
           SqlFetchSqlAll (count_sql ''dbo.missing'')])
   \<and> (\<exists>sql. s3_to_redshift_sql example_self ''stage.missing''
                 ''s3://tmp-bucket/rsqoop/dev/stage-missing/output.tsv'' False False True
                 False 0 None [CHR 0x09] False = Inr sql
             \<and> stage_to_redshift (quiet_world [] False) example_self ''dbo.missing''
                   ''stage.missing'' False True None [CHR 0x09] False None None None []
                 = (Inr (),
                    [SqlFetchSqlAll (schema_sql ''dbo'' ''missing''),
                     PgTableExists ''stage.missing'',
                     SqlFetchSqlAll (count_sql ''dbo.missing''),
                     SqlFetchSql (ce_sql ''*'' ''dbo.missing'' ''''),
                     WriteTempFile ''temp/stage-missing.txt'' True [CHR 0x09] [],
                     PgConn,
                     PgBatchOpen,
                     PgFetchSql ''select 1'',
                     SqlFetchSql ''select 1'',
                     S3PutFile ''tmp-bucket'' ''rsqoop/dev/stage-missing/output.tsv''
                       ''temp/stage-missing.txt'',
                     PathExists ''temp/stage-missing.txt'',
                     RemoveFile ''temp/stage-missing.txt'',
                     PgConn,
                     PgBatchOpen,
                     PgExecSql sql,
                     PgExecSql (grant_sql ''stage.missing''),
                     PgBatchCommit,
                     PgBatchCommit,
                     PgFetchSqlAll (count_sql ''stage.missing'')]))"
proof (intro conjI)
  show "clone_staging_table (missing_table_world ''dbo.missing'') ''dbo.missing''
       ''stage.missing'' None False []
     = (Inr (None, None),
        [SqlFetchSqlAll (schema_sql ''dbo'' ''missing''), PgTableExists ''stage.missing''])"
    by (simp add: run_defs io_defs missing_table_world_def quiet_world_def count_sql_def
          schema_sql_def)
  show "stage_to_redshift (missing_table_world ''dbo.missing'') example_self ''dbo.missing''
         ''stage.missing'' False True None [CHR 0x09] False None None None []
       = (Inl (DriverError ''Invalid object name''),
          [SqlFetchSqlAll (schema_sql ''dbo'' ''missing''), PgTableExists ''stage.missing'',
           SqlFetchSqlAll (count_sql ''dbo.missing'')])"
    by (simp add: run_defs io_defs missing_table_world_def quiet_world_def count_sql_def
          schema_sql_def)
  have passes: "count_check 0 0 default_pct_threshold = Inr (0, 0)"
    using default_pct_threshold_pos
    by (subst count_check_exact) (simp_all add: relative_diff_def round_double_def)
  obtain sql where sql: "s3_to_redshift_sql example_self ''stage.missing''
                 ''s3://tmp-bucket/rsqoop/dev/stage-missing/output.tsv'' False False True
                 False 0 None [CHR 0x09] False = Inr sql"
    using sql_full_delimited by blast
  have "stage_to_redshift (quiet_world [] False) example_self ''dbo.missing''
                   ''stage.missing'' False True None [CHR 0x09] False None None None []
                 = (Inr (),
                    [SqlFetchSqlAll (schema_sql ''dbo'' ''missing''),
                     PgTableExists ''stage.missing'',
                     SqlFetchSqlAll (count_sql ''dbo.missing''),
                     SqlFetchSql (ce_sql ''*'' ''dbo.missing'' ''''),
                     WriteTempFile ''temp/stage-missing.txt'' True [CHR 0x09] [],
                     PgConn,
                     PgBatchOpen,
                     PgFetchSql ''select 1'',
                     SqlFetchSql ''select 1'',
                     S3PutFile ''tmp-bucket'' ''rsqoop/dev/stage-missing/output.tsv''
                       ''temp/stage-missing.txt'',
                     PathExists ''temp/stage-missing.txt'',
                     RemoveFile ''temp/stage-missing.txt'',
                     PgConn,
                     PgBatchOpen,
                     PgExecSql sql,
                     PgExecSql (grant_sql ''stage.missing''),
                     PgBatchCommit,
                     PgBatchCommit,
                     PgFetchSqlAll (count_sql ''stage.missing'')])"
    by (simp add: run_defs io_defs quiet_world_def example_self_def Let_def passes
          sql [unfolded example_self_def])
  with sql show "\<exists>sql. s3_to_redshift_sql example_self ''stage.missing''
                 ''s3://tmp-bucket/rsqoop/dev/stage-missing/output.tsv'' False False True
                 False 0 None [CHR 0x09] False = Inr sql
             \<and> stage_to_redshift (quiet_world [] False) example_self ''dbo.missing''
                   ''stage.missing'' False True None [CHR 0x09] False None None None []
                 = (Inr (),
                    [SqlFetchSqlAll (schema_sql ''dbo'' ''missing''),
                     PgTableExists ''stage.missing'',
                     SqlFetchSqlAll (count_sql ''dbo.missing''),
                     SqlFetchSql (ce_sql ''*'' ''dbo.missing'' ''''),
                     WriteTempFile ''temp/stage-missing.txt'' True [CHR 0x09] [],
                     PgConn,
                     PgBatchOpen,
                     PgFetchSql ''select 1'',
                     SqlFetchSql ''select 1'',
                     S3PutFile ''tmp-bucket'' ''rsqoop/dev/stage-missing/output.tsv''
                       ''temp/stage-missing.txt'',
                     PathExists ''temp/stage-missing.txt'',
                     RemoveFile ''temp/stage-missing.txt'',
                     PgConn,
                     PgBatchOpen,
                     PgExecSql sql,
                     PgExecSql (grant_sql ''stage.missing''),
                     PgBatchCommit,
                     PgBatchCommit,
                     PgFetchSqlAll (count_sql ''stage.missing'')])"
    by blast
qed

end
